theory Spec2Isabelle
  imports Complex_Main
begin

section \<open>Tensors, the parameter heap and linear layers\<close>

text \<open>
  The notebooks of the repository are linear scripts over a tensor framework. A tensor is
  a shape (the sizes of its dimensions) and its elements in row-major order. The element
  type is left open: parameters are only allocated, copied and compared here.

  Parameters are mutable objects that several names may refer to (a model's layer and the
  dictionary returned by \<open>state_dict()\<close> share them), so they live in a heap and are
  referred to by address. An address is an index of the heap; allocation appends.
\<close>

datatype 'a tensor = Tensor (shape: "int list") (data: "'a list")

type_synonym addr = nat
type_synonym 'a heap = "'a tensor list"

text \<open>
  Random initialisation: the seed determines a value for every element of every freshly
  allocated tensor. It is passed explicitly instead of being global framework state.
\<close>

type_synonym 'a rng = "addr \<Rightarrow> nat \<Rightarrow> 'a"

definition numel :: "int list \<Rightarrow> nat" where
  "numel s = nat (prod_list s)"

definition new_tensor :: "'a rng \<Rightarrow> addr \<Rightarrow> int list \<Rightarrow> 'a tensor" where
  "new_tensor rng a s = Tensor s (map (rng a) [0..<numel s])"

text \<open>
  \<open>nn.Linear(in_features, out_features)\<close>: a weight of shape \<open>[out_features, in_features]\<close>
  and a bias of shape \<open>[out_features]\<close>, as the shapes printed by the notebook show
  (\<open>hidden_layers.0.weight\<close> of \<open>Linear(in_features=784, out_features=512)\<close> has
  shape \<open>[512, 784]\<close>, its bias \<open>[512]\<close>).
\<close>

record linear =
  in_features :: int
  out_features :: int
  weight :: addr
  bias :: addr

definition nn_Linear :: "'a rng \<Rightarrow> int \<Rightarrow> int \<Rightarrow> 'a heap \<Rightarrow> linear \<times> 'a heap" where
  "nn_Linear rng n_in n_out h =
     (\<lparr>in_features = n_in, out_features = n_out, weight = length h, bias = Suc (length h)\<rparr>,
      h @ [new_tensor rng (length h) [n_out, n_in], new_tensor rng (Suc (length h)) [n_out]])"

section \<open>The network built by \<open>fc_model.Network\<close>\<close>

text \<open>
  The model object as the notebook prints it: a list \<open>hidden_layers\<close> of linear layers, a
  linear layer \<open>output\<close> (the field \<open>output_layer\<close> here), and the training/evaluation
  flag every module carries (\<open>model.train()\<close> sets it, \<open>model.eval()\<close> clears it; a new
  module is in training mode).
\<close>

record network =
  hidden_layers :: "linear list"
  output_layer :: linear
  training :: bool

definition train :: "network \<Rightarrow> network" where
  "train model = model\<lparr>training := True\<rparr>"

definition eval :: "network \<Rightarrow> network" where
  "eval model = model\<lparr>training := False\<rparr>"

text \<open>The arguments of \<open>fc_model.Network(input_size, output_size, hidden_layers)\<close>.\<close>

record descriptor =
  input_size :: int
  output_size :: int
  hidden_sizes :: "int list"

definition valid_descriptor :: "descriptor \<Rightarrow> bool" where
  "valid_descriptor d \<longleftrightarrow>
     0 < input_size d \<and> 0 < output_size d \<and> list_all (\<lambda>w. 0 < w) (hidden_sizes d)"

datatype incompat =
    Missing_keys "string list"
  | Unexpected_keys "string list"
  | Size_mismatch string "int list" "int list"

text \<open>
  The three error kinds. \<open>ShapeMismatch\<close> is the \<open>RuntimeError\<close> "Error(s) in loading
  state_dict" of the notebook; it carries the collected messages. In \<open>Size_mismatch k s s'\<close>
  the shape \<open>s\<close> is the one in the checkpoint and \<open>s'\<close> the one in the current model, in
  the order of the message.
\<close>

datatype error = ArtifactUnreadable | MalformedDescriptor | ShapeMismatch "incompat list"

fun build_layers :: "'a rng \<Rightarrow> (int \<times> int) list \<Rightarrow> 'a heap \<Rightarrow> linear list \<times> 'a heap" where
  "build_layers rng [] h = ([], h)"
| "build_layers rng ((n_in, n_out) # ds) h =
     (let (l, h1) = nn_Linear rng n_in n_out h;
          (ls, h2) = build_layers rng ds h1
      in (l # ls, h2))"

text \<open>
  Modelled from the spec: \<open>fc_model.Network.__init__\<close>, whose file is not among the sources
  (the notebook only calls it and prints the result). The layer widths are the input
  width, the hidden widths in order, and the output width; one linear layer joins each
  pair of adjacent widths, the last one being \<open>output\<close>. A descriptor with a non-positive
  width is refused before anything is allocated. The printed model
  \<open>Network(784, 10, [512, 256, 128])\<close> has the layers 784-512, 512-256, 256-128 in
  \<open>hidden_layers\<close> and 128-10 as \<open>output\<close>.
\<close>

definition Network :: "'a rng \<Rightarrow> descriptor \<Rightarrow> 'a heap \<Rightarrow> (error + network) \<times> 'a heap" where
  "Network rng d h =
     (if \<not> valid_descriptor d then (Inl MalformedDescriptor, h)
      else
        let widths = input_size d # hidden_sizes d;
            (hs, h1) = build_layers rng (zip widths (hidden_sizes d)) h;
            (out, h2) = nn_Linear rng (last widths) (output_size d) h1
        in (Inr \<lparr>hidden_layers = hs, output_layer = out, training = True\<rparr>, h2))"

section \<open>The state dict\<close>

definition digit_char :: "nat \<Rightarrow> char" where
  "digit_char n = ''0123456789'' ! n"

function str_nat :: "nat \<Rightarrow> string" where
  "str_nat n = (if n < 10 then [digit_char n] else str_nat (n div 10) @ [digit_char (n mod 10)])"
  by pat_completeness auto
termination
  by (relation "measure id") auto

declare str_nat.simps [simp del]

text \<open>
  \<open>model.state_dict()\<close>: the ordered dictionary of parameter names and parameters, in
  construction order, as the notebook prints its keys:
  \<open>hidden_layers.0.weight\<close>, \<open>hidden_layers.0.bias\<close>, ..., \<open>output.weight\<close>,
  \<open>output.bias\<close>. The values are the parameters themselves (addresses), not copies.
\<close>

definition linear_params :: "string \<Rightarrow> linear \<Rightarrow> (string \<times> addr) list" where
  "linear_params prefix l = [(prefix @ ''weight'', weight l), (prefix @ ''bias'', bias l)]"

fun hidden_params :: "nat \<Rightarrow> linear list \<Rightarrow> (string \<times> addr) list" where
  "hidden_params i [] = []"
| "hidden_params i (l # ls) =
     linear_params (''hidden_layers.'' @ str_nat i @ ''.'') l @ hidden_params (Suc i) ls"

definition state_dict :: "network \<Rightarrow> (string \<times> addr) list" where
  "state_dict model =
     hidden_params 0 (hidden_layers model) @ linear_params ''output.'' (output_layer model)"

text \<open>The Parameter Store of a model in a heap: every key with the tensor it names.\<close>

definition param_store :: "'a heap \<Rightarrow> network \<Rightarrow> (string \<times> 'a tensor) list" where
  "param_store h model = map (\<lambda>(k, a). (k, h ! a)) (state_dict model)"

definition store_shapes :: "(string \<times> 'a tensor) list \<Rightarrow> (string \<times> int list) list" where
  "store_shapes sd = map (\<lambda>(k, t). (k, shape t)) sd"

section \<open>Saving: the checkpoint cell and \<open>torch.save\<close>\<close>

text \<open>
  The dictionary built by the save cell of the notebook:
  \<^verbatim>\<open>
  checkpoint = {'input_size': 784,
                'output_size': 10,
                'hidden_layers': [each.out_features for each in model.hidden_layers],
                'state_dict': model.state_dict()}
  \<close>
  The type parameter is the type of the state dict: addresses in memory, tensors once
  written to a file.
\<close>

record 's checkpoint_dict =
  ck_input_size :: int
  ck_output_size :: int
  ck_hidden_layers :: "int list"
  ck_state_dict :: 's

definition checkpoint :: "network \<Rightarrow> ((string \<times> addr) list) checkpoint_dict" where
  "checkpoint model =
     \<lparr>ck_input_size = 784,
      ck_output_size = 10,
      ck_hidden_layers = map out_features (hidden_layers model),
      ck_state_dict = state_dict model\<rparr>"

text \<open>
  What \<open>torch.load\<close> can give back. A file holds a pickled dictionary with string
  keys, some other pickled object, or bytes that do not unpickle. The values of a
  dictionary are integers, lists of integers, tensors, dictionaries of tensors (a state
  dict), or objects of any other kind (\<open>PyOther\<close>: a string, \<open>None\<close>, a float, ...). A
  dictionary may have any keys: nothing makes a file hold all four entries of a
  checkpoint, or values of the right kind under them.
\<close>

datatype 'a pyval =
    PyInt int
  | PyIntList "int list"
  | PyTensor "'a tensor"
  | PyStateDict "(string \<times> 'a tensor) list"
  | PyOther

datatype 'a blob =
    Pickled_dict "(string \<times> 'a pyval) list"
  | Pickled_other
  | Corrupt

text \<open>
  The two dictionaries the notebook writes: a bare state dict
  (\<open>torch.save(model.state_dict(), 'checkpoint.pth')\<close>) and the checkpoint dictionary of
  the save cell. Pickling writes the values of the tensors that the dictionary refers to
  at that moment.
\<close>

definition Pickled_state_dict :: "(string \<times> 'a tensor) list \<Rightarrow> 'a blob" where
  "Pickled_state_dict sd = Pickled_dict (map (\<lambda>(k, t). (k, PyTensor t)) sd)"

definition Pickled_checkpoint :: "((string \<times> 'a tensor) list) checkpoint_dict \<Rightarrow> 'a blob" where
  "Pickled_checkpoint c =
     Pickled_dict
       [(''input_size'', PyInt (ck_input_size c)),
        (''output_size'', PyInt (ck_output_size c)),
        (''hidden_layers'', PyIntList (ck_hidden_layers c)),
        (''state_dict'', PyStateDict (ck_state_dict c))]"

type_synonym 'a files = "string \<rightharpoonup> 'a blob"

definition pickle_state_dict :: "'a heap \<Rightarrow> (string \<times> addr) list \<Rightarrow> (string \<times> 'a tensor) list" where
  "pickle_state_dict h sd = map (\<lambda>(k, a). (k, h ! a)) sd"

definition torch_save_state_dict ::
  "(string \<times> addr) list \<Rightarrow> string \<Rightarrow> 'a heap \<Rightarrow> 'a files \<Rightarrow> 'a files" where
  "torch_save_state_dict sd path h fs = fs(path \<mapsto> Pickled_state_dict (pickle_state_dict h sd))"

definition torch_save_checkpoint ::
  "((string \<times> addr) list) checkpoint_dict \<Rightarrow> string \<Rightarrow> 'a heap \<Rightarrow> 'a files \<Rightarrow> 'a files" where
  "torch_save_checkpoint c path h fs =
     fs(path \<mapsto> Pickled_checkpoint
        \<lparr>ck_input_size = ck_input_size c,
         ck_output_size = ck_output_size c,
         ck_hidden_layers = ck_hidden_layers c,
         ck_state_dict = pickle_state_dict h (ck_state_dict c)\<rparr>)"

section \<open>Loading: \<open>load_state_dict\<close> and \<open>load_checkpoint\<close>\<close>

text \<open>
  \<open>model.load_state_dict(state_dict)\<close> with the default \<open>strict=True\<close>. The framework
  walks the parameters of the model in the order of its state dict. A parameter whose key
  is in the recovered dictionary with the same shape is overwritten in place at once
  (\<open>param.copy_(input_param)\<close>); one whose shape differs adds a "size mismatch" message
  and is skipped; one whose key is absent is noted as missing. The keys of the recovered
  dictionary that name no parameter of the model are the unexpected ones. Only after the
  walk, if any message was collected, the error is raised with all of them:
  \<^verbatim>\<open>
  if len(error_msgs) > 0:
      raise RuntimeError('Error(s) in loading state_dict for {}:\n\t{}'.format(
                         self.__class__.__name__, "\n\t".join(error_msgs)))
  return _IncompatibleKeys(missing_keys, unexpected_keys)
  \<close>
  The recovered dictionary holds tensors of its own (fresh from \<open>torch.load\<close>), so it is
  passed by value. The parameters of linear layers have one or two dimensions; the
  framework's conversion of an old one-element tensor for a parameter without dimensions
  does not arise and is left out.
\<close>

fun load_params ::
  "(string \<times> addr) list \<Rightarrow> (string \<times> 'a tensor) list \<Rightarrow> 'a heap
     \<Rightarrow> 'a heap \<times> incompat list \<times> string list" where
  "load_params [] sd h = (h, [], [])"
| "load_params ((k, a) # ps) sd h =
     (case map_of sd k of
        None \<Rightarrow>
          (let (h', errs, missing) = load_params ps sd h in (h', errs, k # missing))
      | Some t \<Rightarrow>
          if shape t \<noteq> shape (h ! a)
          then (let (h', errs, missing) = load_params ps sd h
                in (h', Size_mismatch k (shape t) (shape (h ! a)) # errs, missing))
          else load_params ps sd (h[a := t]))"

definition load_state_dict ::
  "network \<Rightarrow> (string \<times> 'a tensor) list \<Rightarrow> 'a heap \<Rightarrow> (error + unit) \<times> 'a heap" where
  "load_state_dict model sd h =
     (let (h', size_errs, missing) = load_params (state_dict model) sd h;
          unexpected = filter (\<lambda>k. k \<notin> set (map fst (state_dict model))) (map fst sd);
          error_msgs = (if missing = [] then [] else [Missing_keys missing])
                     @ (if unexpected = [] then [] else [Unexpected_keys unexpected])
                     @ size_errs
      in if error_msgs = [] then (Inr (), h') else (Inl (ShapeMismatch error_msgs), h'))"

text \<open>
  \<open>torch.load(path)\<close> raises when there is no file at the path or its bytes do not
  unpickle, and returns the pickled object otherwise.
\<close>

definition torch_load :: "string \<Rightarrow> 'a files \<Rightarrow> error + 'a blob" where
  "torch_load path fs =
     (case fs path of
        None \<Rightarrow> Inl ArtifactUnreadable
      | Some Corrupt \<Rightarrow> Inl ArtifactUnreadable
      | Some b \<Rightarrow> Inr b)"

text \<open>
  \<open>checkpoint[key]\<close> on the loaded object: a \<open>KeyError\<close> when the dictionary has no such
  key, a \<open>TypeError\<close> when the object is not a dictionary. Both mean that the file does
  not hold a checkpoint record.
\<close>

definition getitem :: "'a blob \<Rightarrow> string \<Rightarrow> error + 'a pyval" where
  "getitem obj key =
     (case obj of
        Pickled_dict kv \<Rightarrow>
          (case map_of kv key of None \<Rightarrow> Inl ArtifactUnreadable | Some v \<Rightarrow> Inr v)
      | other \<Rightarrow> Inl ArtifactUnreadable)"

text \<open>
  Modelled from the spec: the call of \<open>fc_model.Network\<close> with the three values read from
  the file. The fields of a descriptor are integers and a list of integers; values of
  another kind are refused as malformed, like a non-positive width, before anything is
  allocated.
\<close>

definition Network_call ::
  "'a rng \<Rightarrow> 'a pyval \<Rightarrow> 'a pyval \<Rightarrow> 'a pyval \<Rightarrow> 'a heap \<Rightarrow> (error + network) \<times> 'a heap" where
  "Network_call rng v_in v_out v_hidden h =
     (case (v_in, v_out, v_hidden) of
        (PyInt n_in, PyInt n_out, PyIntList ws) \<Rightarrow>
          Network rng \<lparr>input_size = n_in, output_size = n_out, hidden_sizes = ws\<rparr> h
      | other \<Rightarrow> (Inl MalformedDescriptor, h))"

text \<open>
  \<open>model.load_state_dict(v)\<close> for a value read from the file. When \<open>v\<close> is not a
  dictionary the framework raises before it has touched a parameter; the file then does
  not hold a checkpoint record.
\<close>

definition load_state_dict_value ::
  "network \<Rightarrow> 'a pyval \<Rightarrow> 'a heap \<Rightarrow> (error + unit) \<times> 'a heap" where
  "load_state_dict_value model v h =
     (case v of
        PyStateDict sd \<Rightarrow> load_state_dict model sd h
      | other \<Rightarrow> (Inl ArtifactUnreadable, h))"

text \<open>
  \<^verbatim>\<open>
  def load_checkpoint(filepath):
      checkpoint = torch.load(filepath)
      model = fc_model.Network(checkpoint['input_size'],
                               checkpoint['output_size'],
                               checkpoint['hidden_layers'])
      model.load_state_dict(checkpoint['state_dict'])
      return model
  \<close>
  Statement by statement, every exception ending the function with the heap as it is at
  that point. The three lookups of the second statement are evaluated, left to right,
  before \<open>fc_model.Network\<close> is called. The lookup of \<open>'state_dict'\<close> belongs to the third
  statement: it is evaluated after the network has been built.
\<close>

definition load_checkpoint ::
  "'a rng \<Rightarrow> string \<Rightarrow> 'a files \<Rightarrow> 'a heap \<Rightarrow> (error + network) \<times> 'a heap" where
  "load_checkpoint rng filepath fs h =
     (case torch_load filepath fs of
        Inl e \<Rightarrow> (Inl e, h)
      | Inr ckpt \<Rightarrow>
     (case getitem ckpt ''input_size'' of
        Inl e \<Rightarrow> (Inl e, h)
      | Inr v_in \<Rightarrow>
     (case getitem ckpt ''output_size'' of
        Inl e \<Rightarrow> (Inl e, h)
      | Inr v_out \<Rightarrow>
     (case getitem ckpt ''hidden_layers'' of
        Inl e \<Rightarrow> (Inl e, h)
      | Inr v_hidden \<Rightarrow>
     (case Network_call rng v_in v_out v_hidden h of
        (Inl e, h1) \<Rightarrow> (Inl e, h1)
      | (Inr model, h1) \<Rightarrow>
     (case getitem ckpt ''state_dict'' of
        Inl e \<Rightarrow> (Inl e, h1)
      | Inr v_sd \<Rightarrow>
     (case load_state_dict_value model v_sd h1 of
        (Inl e, h2) \<Rightarrow> (Inl e, h2)
      | (Inr u, h2) \<Rightarrow> (Inr model, h2))))))))"

text \<open>
  The widths a model really has: the input width of its first layer, the output widths of
  its hidden layers, and the output width of its last layer.
\<close>

definition actual_architecture :: "network \<Rightarrow> descriptor" where
  "actual_architecture model =
     \<lparr>input_size = in_features (hd (hidden_layers model @ [output_layer model])),
      output_size = out_features (output_layer model),
      hidden_sizes = map out_features (hidden_layers model)\<rparr>"

definition recorded_architecture :: "'s checkpoint_dict \<Rightarrow> descriptor" where
  "recorded_architecture c =
     \<lparr>input_size = ck_input_size c, output_size = ck_output_size c,
      hidden_sizes = ck_hidden_layers c\<rparr>"

section \<open>Shapes and incompatibility reports as functions\<close>

text \<open>
  The keys and shapes that the Parameter Store of a model built from a descriptor must
  have, written as a function of the descriptor alone: for every pair of adjacent widths
  \<open>(n_in, n_out)\<close> a weight of shape \<open>[n_out, n_in]\<close> and a bias of shape \<open>[n_out]\<close>.
\<close>

definition linear_shapes :: "string \<Rightarrow> int \<Rightarrow> int \<Rightarrow> (string \<times> int list) list" where
  "linear_shapes prefix n_in n_out =
     [(prefix @ ''weight'', [n_out, n_in]), (prefix @ ''bias'', [n_out])]"

fun hidden_shapes :: "nat \<Rightarrow> (int \<times> int) list \<Rightarrow> (string \<times> int list) list" where
  "hidden_shapes i [] = []"
| "hidden_shapes i ((n_in, n_out) # ds) =
     linear_shapes (''hidden_layers.'' @ str_nat i @ ''.'') n_in n_out @ hidden_shapes (Suc i) ds"

definition param_shapes :: "descriptor \<Rightarrow> (string \<times> int list) list" where
  "param_shapes d =
     (let widths = input_size d # hidden_sizes d
      in hidden_shapes 0 (zip widths (hidden_sizes d))
         @ linear_shapes ''output.'' (last widths) (output_size d))"

definition heap_shapes :: "'a heap \<Rightarrow> (string \<times> addr) list \<Rightarrow> (string \<times> int list) list" where
  "heap_shapes h ps = map (\<lambda>(k, a). (k, shape (h ! a))) ps"

definition hidden_prefix :: "nat \<Rightarrow> string" where
  "hidden_prefix i = ''hidden_layers.'' @ str_nat i @ ''.''"

text \<open>
  What strict loading has to report for a model whose parameters have the keys and shapes
  \<open>own\<close> when the recovered dictionary has the keys and shapes \<open>ckpt\<close>: the keys of the
  model that the dictionary lacks, the keys of the dictionary that the model lacks, and one
  size mismatch for every key on both sides whose shapes differ.
\<close>

definition size_errors ::
  "(string \<times> int list) list \<Rightarrow> (string \<times> int list) list \<Rightarrow> incompat list" where
  "size_errors own ckpt =
     concat (map (\<lambda>(k, s). case map_of ckpt k of
                               None \<Rightarrow> []
                             | Some s' \<Rightarrow> if s' \<noteq> s then [Size_mismatch k s' s] else []) own)"

definition missing_keys :: "(string \<times> int list) list \<Rightarrow> (string \<times> int list) list \<Rightarrow> string list" where
  "missing_keys own ckpt = filter (\<lambda>k. k \<notin> set (map fst ckpt)) (map fst own)"

definition unexpected_keys :: "(string \<times> int list) list \<Rightarrow> (string \<times> int list) list \<Rightarrow> string list" where
  "unexpected_keys own ckpt = filter (\<lambda>k. k \<notin> set (map fst own)) (map fst ckpt)"

definition report :: "(string \<times> int list) list \<Rightarrow> (string \<times> int list) list \<Rightarrow> incompat list" where
  "report own ckpt =
     (if missing_keys own ckpt = [] then [] else [Missing_keys (missing_keys own ckpt)])
     @ (if unexpected_keys own ckpt = [] then [] else [Unexpected_keys (unexpected_keys own ckpt)])
     @ size_errors own ckpt"

text \<open>The keys that a report names.\<close>

fun incompat_keys :: "incompat \<Rightarrow> string set" where
  "incompat_keys (Missing_keys ks) = set ks"
| "incompat_keys (Unexpected_keys ks) = set ks"
| "incompat_keys (Size_mismatch k s s') = {k}"

definition reported_keys :: "incompat list \<Rightarrow> string set" where
  "reported_keys r = \<Union> (incompat_keys ` set r)"

section \<open>The script as steps on the heap and the files\<close>

text \<open>
  The save cell as a step on the state of the session (the heap and the files), and the
  in-place change of one live parameter, as an optimizer step or any later assignment
  to the data of a parameter makes it.
\<close>

definition write_param :: "addr \<Rightarrow> 'a tensor \<Rightarrow> 'a heap \<times> 'a files \<Rightarrow> 'a heap \<times> 'a files" where
  "write_param a t s = ((fst s)[a := t], snd s)"

definition save_cell :: "network \<Rightarrow> string \<Rightarrow> 'a heap \<times> 'a files \<Rightarrow> 'a heap \<times> 'a files" where
  "save_cell model path s = (fst s, torch_save_checkpoint (checkpoint model) path (fst s) (snd s))"

section \<open>The classifier with dropout of the validation notebook\<close>

text \<open>
  \<^verbatim>\<open>
  class DropoutClassifier(nn.Module):
      def __init__(self):
          super().__init__()
          self.fc1 = nn.Linear(784, 256)
          self.fc2 = nn.Linear(256, 128)
          self.fc3 = nn.Linear(128, 64)
          self.fc4 = nn.Linear(64, 10)

      def forward(self, x):
          # make sure input tensor is flattened
          x = x.view(x.shape[0], -1)
          x = F.dropout(F.relu(self.fc1(x)))
          x = F.dropout(F.relu(self.fc2(x)))
          x = F.dropout(F.relu(self.fc3(x)))
          x = F.log_softmax(self.fc4(x), dim=1)
          return x
  \<close>
  The forward pass is modelled on one flattened row of the batch, over the reals in
  place of the floating-point numbers. A linear layer holds its weight as a list of rows
  and its bias. \<open>F.dropout(input, p=0.5, training=True)\<close> zeroes an element with
  probability \<open>p\<close> and scales the others by \<open>1 / (1 - p)\<close> when \<open>training\<close> holds, and
  returns its input otherwise; the random choice is the argument \<open>keep\<close>, which says for
  every position whether the element is kept. \<open>forward\<close> takes one such choice for each
  of its three calls. The flag of the module is the field \<open>classifier_training\<close>.
\<close>

record fc =
  fc_weight :: "real list list"
  fc_bias :: "real list"

definition linear_forward :: "fc \<Rightarrow> real list \<Rightarrow> real list" where
  "linear_forward l x =
     map (\<lambda>(row, b). sum_list (map (\<lambda>(w, v). w * v) (zip row x)) + b)
         (zip (fc_weight l) (fc_bias l))"

definition F_relu :: "real list \<Rightarrow> real list" where
  "F_relu x = map (max 0) x"

definition F_dropout :: "(nat \<Rightarrow> bool) \<Rightarrow> real list \<Rightarrow> real \<Rightarrow> bool \<Rightarrow> real list" where
  "F_dropout keep x p is_training =
     (if is_training
      then map (\<lambda>(i, v). if keep i then v / (1 - p) else 0) (enumerate 0 x)
      else x)"

definition F_log_softmax :: "real list \<Rightarrow> real list" where
  "F_log_softmax x = map (\<lambda>v. v - ln (sum_list (map exp x))) x"

record dropout_classifier =
  fc1 :: fc
  fc2 :: fc
  fc3 :: fc
  fc4 :: fc
  classifier_training :: bool

definition classifier_train :: "dropout_classifier \<Rightarrow> dropout_classifier" where
  "classifier_train model = model\<lparr>classifier_training := True\<rparr>"

definition classifier_eval :: "dropout_classifier \<Rightarrow> dropout_classifier" where
  "classifier_eval model = model\<lparr>classifier_training := False\<rparr>"

definition forward :: "dropout_classifier \<Rightarrow> (nat \<Rightarrow> nat \<Rightarrow> bool) \<Rightarrow> real list \<Rightarrow> real list" where
  "forward model keep x =
     (let x1 = F_dropout (keep 0) (F_relu (linear_forward (fc1 model) x)) (1 / 2) True;
          x2 = F_dropout (keep 1) (F_relu (linear_forward (fc2 model) x1)) (1 / 2) True;
          x3 = F_dropout (keep 2) (F_relu (linear_forward (fc3 model) x2)) (1 / 2) True
      in F_log_softmax (linear_forward (fc4 model) x3))"

text \<open>The shapes \<open>DropoutClassifier.__init__\<close> gives to the four layers.\<close>

definition fc_shape :: "nat \<Rightarrow> nat \<Rightarrow> fc \<Rightarrow> bool" where
  "fc_shape n_in n_out l \<longleftrightarrow>
     length (fc_weight l) = n_out \<and> list_all (\<lambda>row. length row = n_in) (fc_weight l)
     \<and> length (fc_bias l) = n_out"

definition is_DropoutClassifier :: "dropout_classifier \<Rightarrow> bool" where
  "is_DropoutClassifier model \<longleftrightarrow>
     fc_shape 784 256 (fc1 model) \<and> fc_shape 256 128 (fc2 model)
     \<and> fc_shape 128 64 (fc3 model) \<and> fc_shape 64 10 (fc4 model)"

text \<open>
  A classifier of these shapes whose output depends on the third dropout only: the first
  three layers have weights 0 and biases 1, the last one sums its input in its first
  output and gives 0 in the others.
\<close>

definition constant_fc :: "nat \<Rightarrow> nat \<Rightarrow> fc" where
  "constant_fc n_in n_out =
     \<lparr>fc_weight = replicate n_out (replicate n_in 0), fc_bias = replicate n_out 1\<rparr>"

definition first_row_fc :: fc where
  "first_row_fc =
     \<lparr>fc_weight = replicate 64 1 # replicate 9 (replicate 64 0), fc_bias = 0 # replicate 9 0\<rparr>"

definition sample_classifier :: dropout_classifier where
  "sample_classifier =
     \<lparr>fc1 = constant_fc 784 256, fc2 = constant_fc 256 128, fc3 = constant_fc 128 64,
      fc4 = first_row_fc, classifier_training = True\<rparr>"

section \<open>Lemmas about keys, shapes and the loading loop\<close>

lemma shape_new_tensor [simp]: "shape (new_tensor rng a s) = s"
  by (simp add: new_tensor_def)

lemma digit_char_inj: "a < 10 \<Longrightarrow> b < 10 \<Longrightarrow> digit_char a = digit_char b \<Longrightarrow> a = b"
proof -
  assume a: "a < 10" and b: "b < 10" and e: "digit_char a = digit_char b"
  have d: "distinct ''0123456789''" by simp
  have l: "length ''0123456789'' = 10" by simp
  from e have "''0123456789'' ! a = ''0123456789'' ! b" by (simp add: digit_char_def)
  with d a b l show "a = b" by (metis nth_eq_iff_index_eq)
qed

lemma str_nat_nonempty: "str_nat n \<noteq> []"
  by (subst str_nat.simps) simp

lemma str_nat_inj: "str_nat n = str_nat m \<Longrightarrow> n = m"
proof (induction n arbitrary: m rule: str_nat.induct)
  case (1 n)
  show ?case
  proof (cases "n < 10")
    case True
    then have sn: "str_nat n = [digit_char n]" by (subst str_nat.simps) simp
    show ?thesis
    proof (cases "m < 10")
      case mt: True
      then have "str_nat m = [digit_char m]" by (subst str_nat.simps) simp
      with sn "1.prems" have "digit_char n = digit_char m" by simp
      with True mt show ?thesis by (rule digit_char_inj)
    next
      case False
      then have "str_nat m = str_nat (m div 10) @ [digit_char (m mod 10)]"
        by (subst str_nat.simps) simp
      with sn "1.prems" have "str_nat (m div 10) = []" by simp
      then show ?thesis by (simp add: str_nat_nonempty)
    qed
  next
    case False
    then have sn: "str_nat n = str_nat (n div 10) @ [digit_char (n mod 10)]"
      by (subst str_nat.simps) simp
    show ?thesis
    proof (cases "m < 10")
      case True
      then have "str_nat m = [digit_char m]" by (subst str_nat.simps) simp
      with sn "1.prems" have "str_nat (n div 10) = []" by simp
      then show ?thesis by (simp add: str_nat_nonempty)
    next
      case mf: False
      then have "str_nat m = str_nat (m div 10) @ [digit_char (m mod 10)]"
        by (subst str_nat.simps) simp
      with sn "1.prems" have e1: "str_nat (n div 10) = str_nat (m div 10)"
        and e2: "digit_char (n mod 10) = digit_char (m mod 10)" by simp_all
      from "1.IH" [OF False e1] have q: "n div 10 = m div 10" .
      have "n mod 10 = m mod 10" by (rule digit_char_inj [OF _ _ e2]) simp_all
      with q show ?thesis by (metis div_mult_mod_eq)
    qed
  qed
qed

lemma str_nat_small: "n < 10 \<Longrightarrow> str_nat n = [digit_char n]"
  by (subst str_nat.simps) simp

lemma heap_shapes_append [simp]: "heap_shapes h (ps @ qs) = heap_shapes h ps @ heap_shapes h qs"
  by (simp add: heap_shapes_def)

lemma heap_shapes_ext:
  "\<forall>a \<in> snd ` set ps. a < length h \<Longrightarrow> heap_shapes (h @ ext) ps = heap_shapes h ps"
  by (induction ps) (auto simp: heap_shapes_def nth_append)

lemma nn_Linear_props:
  assumes "nn_Linear rng n_in n_out h = (l, h')"
  shows "h' = h @ [new_tensor rng (length h) [n_out, n_in], new_tensor rng (Suc (length h)) [n_out]]"
    and "in_features l = n_in" and "out_features l = n_out"
    and "weight l = length h" and "bias l = Suc (length h)"
  using assms by (auto simp: nn_Linear_def)

lemma linear_params_shapes:
  assumes "nn_Linear rng n_in n_out h = (l, h')"
  shows "heap_shapes h' (linear_params p l) = linear_shapes p n_in n_out"
    and "map snd (linear_params p l) = [length h..<length h']"
    and "length h' = length h + 2"
  using assms
  by (auto simp: nn_Linear_def heap_shapes_def linear_params_def linear_shapes_def nth_append
      upt_rec)

lemma build_layers_props:
  "build_layers rng ds h = (ls, h') \<Longrightarrow>
     (\<exists>ext. h' = h @ ext) \<and> length h' = length h + 2 * length ds
     \<and> heap_shapes h' (hidden_params i ls) = hidden_shapes i ds
     \<and> map snd (hidden_params i ls) = [length h..<length h']
     \<and> map out_features ls = map snd ds \<and> map in_features ls = map fst ds"
proof (induction ds arbitrary: h ls i h')
  case Nil
  then show ?case by (simp add: heap_shapes_def)
next
  case (Cons p ds)
  obtain n_in n_out where p: "p = (n_in, n_out)" by (cases p)
  obtain l h1 where l: "nn_Linear rng n_in n_out h = (l, h1)" by (cases "nn_Linear rng n_in n_out h")
  obtain ls1 h2 where r: "build_layers rng ds h1 = (ls1, h2)" by (cases "build_layers rng ds h1")
  from Cons.prems p l r have ls: "ls = l # ls1" and h': "h' = h2" by simp_all
  note ih = Cons.IH [OF r, of "Suc i"]
  note lp = linear_params_shapes [OF l] nn_Linear_props [OF l]
  from ih obtain ext where ext: "h2 = h1 @ ext" by blast
  let ?pre = "''hidden_layers.'' @ str_nat i @ ''.''"
  have a: "\<forall>a \<in> snd ` set (linear_params ?pre l). a < length h1"
    using lp(2)[of ?pre] lp(3) by (metis atLeastLessThan_iff set_map set_upt)
  have s1: "heap_shapes h2 (linear_params ?pre l) = linear_shapes ?pre n_in n_out"
    using heap_shapes_ext [OF a, of ext] ext lp(1) by simp
  have addrs: "map snd (hidden_params i ls) = [length h..<length h']"
  proof -
    have "map snd (hidden_params i ls) = [length h..<length h1] @ [length h1..<length h2]"
      using ls lp(2)[of ?pre] ih by simp
    also have "\<dots> = [length h..<length h2]"
      using lp(3) ih by (metis le_add1 upt_add_eq_append add.commute)
    finally show ?thesis using h' by simp
  qed
  show ?case
    using ls h' p ih s1 lp addrs by (auto simp: ext)
qed

lemma hidden_key_inj:
  assumes "hidden_prefix i @ x = hidden_prefix j @ y"
    and "x = ''weight'' \<or> x = ''bias''" and "y = ''weight'' \<or> y = ''bias''"
  shows "i = j \<and> x = y"
proof -
  from assms(1) have e: "(str_nat i @ ''.'') @ x = (str_nat j @ ''.'') @ y"
    by (simp add: hidden_prefix_def)
  have xy: "x = y"
  proof (rule ccontr)
    assume "x \<noteq> y"
    with assms(2,3) have "last ((str_nat i @ ''.'') @ x) \<noteq> last ((str_nat j @ ''.'') @ y)"
      by auto
    with e show False by simp
  qed
  with e have "str_nat i @ ''.'' = str_nat j @ ''.''" by simp
  then have "str_nat i = str_nat j" by simp
  then show ?thesis using xy by (simp add: str_nat_inj)
qed

lemma hidden_shapes_keys:
  "k \<in> fst ` set (hidden_shapes i ds) \<Longrightarrow>
     \<exists>j x. i \<le> j \<and> (x = ''weight'' \<or> x = ''bias'') \<and> k = hidden_prefix j @ x"
proof (induction ds arbitrary: i)
  case Nil
  then show ?case by simp
next
  case (Cons p ds)
  obtain n_in n_out where p: "p = (n_in, n_out)" by (cases p)
  from Cons.prems p
  consider "k = hidden_prefix i @ ''weight''" | "k = hidden_prefix i @ ''bias''"
    | "k \<in> fst ` set (hidden_shapes (Suc i) ds)"
    by (auto simp: linear_shapes_def hidden_prefix_def)
  then show ?case
  proof cases
    case 1 then show ?thesis by blast
  next
    case 2 then show ?thesis by blast
  next
    case 3
    from Cons.IH [OF 3] obtain j x where "Suc i \<le> j" "x = ''weight'' \<or> x = ''bias''"
      "k = hidden_prefix j @ x" by blast
    then show ?thesis by (metis Suc_leD)
  qed
qed

lemma distinct_hidden_shapes: "distinct (map fst (hidden_shapes i ds))"
proof (induction ds arbitrary: i)
  case Nil
  then show ?case by simp
next
  case (Cons p ds)
  obtain n_in n_out where p: "p = (n_in, n_out)" by (cases p)
  have n: "hidden_prefix i @ x \<notin> fst ` set (hidden_shapes (Suc i) ds)"
    if "x = ''weight'' \<or> x = ''bias''" for x
  proof
    assume "hidden_prefix i @ x \<in> fst ` set (hidden_shapes (Suc i) ds)"
    from hidden_shapes_keys [OF this] obtain j y where "Suc i \<le> j"
      "y = ''weight'' \<or> y = ''bias''" "hidden_prefix i @ x = hidden_prefix j @ y" by blast
    with hidden_key_inj [of i x j y] that show False by auto
  qed
  have "hidden_prefix i @ ''weight'' \<noteq> hidden_prefix i @ ''bias''" by simp
  with n [of "''weight''"] n [of "''bias''"] Cons.IH [of "Suc i"] p show ?case
    by (simp add: linear_shapes_def hidden_prefix_def)
qed

lemma distinct_param_shapes: "distinct (map fst (param_shapes d))"
proof -
  let ?ds = "zip (input_size d # hidden_sizes d) (hidden_sizes d)"
  have o: "k \<notin> fst ` set (hidden_shapes 0 ?ds)" if "k = ''output.weight'' \<or> k = ''output.bias''" for k
  proof
    assume "k \<in> fst ` set (hidden_shapes 0 ?ds)"
    from hidden_shapes_keys [OF this] obtain j x where "k = hidden_prefix j @ x" by blast
    with that show False by (auto simp: hidden_prefix_def)
  qed
  show ?thesis
    using o [of "''output.weight''"] o [of "''output.bias''"] distinct_hidden_shapes [of 0 ?ds]
    by (simp add: param_shapes_def Let_def linear_shapes_def)
qed

lemma Network_invalid:
  "\<not> valid_descriptor d \<Longrightarrow> Network rng d h = (Inl MalformedDescriptor, h)"
  by (simp add: Network_def)

lemma Network_Inr_valid: "Network rng d h = (Inr m, h') \<Longrightarrow> valid_descriptor d"
  by (auto simp: Network_def split: if_splits)

lemma Network_props:
  assumes "valid_descriptor d"
  shows "\<exists>m h'. Network rng d h = (Inr m, h') \<and> (\<exists>ext. h' = h @ ext)
           \<and> heap_shapes h' (state_dict m) = param_shapes d
           \<and> map snd (state_dict m) = [length h..<length h']
           \<and> map out_features (hidden_layers m) = hidden_sizes d
           \<and> actual_architecture m = d \<and> training m"
proof -
  let ?w = "input_size d # hidden_sizes d"
  let ?ds = "zip ?w (hidden_sizes d)"
  obtain hs h1 where b: "build_layers rng ?ds h = (hs, h1)" by (cases "build_layers rng ?ds h")
  obtain out h2 where l: "nn_Linear rng (last ?w) (output_size d) h1 = (out, h2)"
    by (cases "nn_Linear rng (last ?w) (output_size d) h1")
  let ?m = "\<lparr>hidden_layers = hs, output_layer = out, training = True\<rparr>"
  have N: "Network rng d h = (Inr ?m, h2)"
    using assms b l by (simp add: Network_def)
  note bp = build_layers_props [OF b, of 0]
  note lp = linear_params_shapes [OF l] nn_Linear_props [OF l]
  from bp obtain ext1 where e1: "h1 = h @ ext1" by blast
  from lp(4) obtain ext2 where e2: "h2 = h1 @ ext2" by blast
  have a: "\<forall>a \<in> snd ` set (hidden_params 0 hs). a < length h1"
    using bp by (metis atLeastLessThan_iff set_map set_upt)
  have s1: "heap_shapes h2 (hidden_params 0 hs) = hidden_shapes 0 ?ds"
    using heap_shapes_ext [OF a, of ext2] e2 bp by simp
  have sh: "heap_shapes h2 (state_dict ?m) = param_shapes d"
    using s1 lp(1) [of "''output.''"] by (simp add: state_dict_def param_shapes_def Let_def)
  have ad: "map snd (state_dict ?m) = [length h..<length h2]"
  proof -
    have "map snd (state_dict ?m) = [length h..<length h1] @ [length h1..<length h2]"
      using bp lp(2) [of "''output.''"] by (simp add: state_dict_def)
    also have "\<dots> = [length h..<length h2]"
      using lp(3) bp by (metis le_add1 upt_add_eq_append add.commute)
    finally show ?thesis .
  qed
  have len: "length (hidden_sizes d) = length ?ds" by simp
  have o: "map out_features hs = hidden_sizes d"
    using bp by (simp add: map_snd_zip_take)
  have i: "map in_features hs = butlast ?w"
  proof -
    have "map in_features hs = map fst ?ds" using bp by simp
    also have "\<dots> = take (length (hidden_sizes d)) ?w" by (simp add: map_fst_zip_take)
    also have "\<dots> = butlast ?w" by (simp add: butlast_conv_take)
    finally show ?thesis .
  qed
  have arch: "actual_architecture ?m = d"
  proof (cases "hidden_sizes d")
    case Nil
    with bp b have "hs = []" by simp
    with Nil lp show ?thesis by (simp add: actual_architecture_def)
  next
    case (Cons w ws)
    with i obtain l0 ls0 where hs: "hs = l0 # ls0" and "in_features l0 = input_size d"
      by (cases hs) auto
    with o lp Cons show ?thesis by (simp add: actual_architecture_def)
  qed
  show ?thesis using N e1 e2 sh ad o arch by auto
qed

lemma map_of_store_shapes: "map_of (store_shapes sd) k = map_option shape (map_of sd k)"
  by (induction sd) (auto simp: store_shapes_def)

lemma keys_store_shapes [simp]: "map fst (store_shapes sd) = map fst sd"
  by (induction sd) (auto simp: store_shapes_def)

lemma keys_heap_shapes [simp]: "map fst (heap_shapes h ps) = map fst ps"
  by (induction ps) (auto simp: heap_shapes_def)

lemma heap_shapes_Cons [simp]:
  "heap_shapes h ((k, a) # ps) = (k, shape (h ! a)) # heap_shapes h ps"
  by (simp add: heap_shapes_def)

lemma map_shape_update:
  "shape t = shape (h ! a) \<Longrightarrow> map shape (h[a := t]) = map shape h"
  by (cases "a < length h") (simp_all add: map_update list_update_same_conv list_update_beyond)

lemma heap_shapes_cong:
  "map shape h' = map shape h \<Longrightarrow> \<forall>a \<in> snd ` set ps. a < length h \<Longrightarrow>
     heap_shapes h' ps = heap_shapes h ps"
proof (induction ps)
  case Nil
  then show ?case by (simp add: heap_shapes_def)
next
  case (Cons p ps)
  obtain k a where p: "p = (k, a)" by (cases p)
  from Cons.prems p have a: "a < length h" by simp
  from Cons.prems(1) have l: "length h' = length h" by (metis length_map)
  from Cons.prems(1) a l have "shape (h' ! a) = shape (h ! a)" by (metis nth_map)
  with Cons p show ?case by (simp add: heap_shapes_def)
qed

lemma load_params_shapes:
  "load_params ps sd h = (h', errs, miss) \<Longrightarrow> map shape h' = map shape h"
proof (induction ps arbitrary: h h' errs miss)
  case Nil
  then show ?case by simp
next
  case (Cons p ps)
  obtain k a where p: "p = (k, a)" by (cases p)
  obtain h1 e1 m1 where r: "load_params ps sd h = (h1, e1, m1)" by (cases "load_params ps sd h")
  show ?case
  proof (cases "map_of sd k")
    case None
    with Cons.prems p r have "h' = h1" by simp
    with Cons.IH [OF r] show ?thesis by simp
  next
    case (Some t)
    show ?thesis
    proof (cases "shape t = shape (h ! a)")
      case True
      with Cons.prems p Some have "load_params ps sd (h[a := t]) = (h', errs, miss)" by simp
      from Cons.IH [OF this] map_shape_update [OF True] show ?thesis by simp
    next
      case False
      with Cons.prems p r Some have "h' = h1" by simp
      with Cons.IH [OF r] show ?thesis by simp
    qed
  qed
qed

lemma load_params_report:
  "\<forall>a \<in> snd ` set ps. a < length h \<Longrightarrow> load_params ps sd h = (h', errs, miss) \<Longrightarrow>
     errs = size_errors (heap_shapes h ps) (store_shapes sd)
     \<and> miss = missing_keys (heap_shapes h ps) (store_shapes sd)"
proof (induction ps arbitrary: h h' errs miss)
  case Nil
  then show ?case by (simp add: size_errors_def missing_keys_def heap_shapes_def)
next
  case (Cons p ps)
  obtain k a where p: "p = (k, a)" by (cases p)
  obtain h1 e1 m1 where r: "load_params ps sd h = (h1, e1, m1)" by (cases "load_params ps sd h")
  from Cons.prems(1) have b: "\<forall>a \<in> snd ` set ps. a < length h" by simp
  note ih = Cons.IH [OF b r]
  show ?case
  proof (cases "map_of sd k")
    case None
    then have "k \<notin> set (map fst sd)" by (simp add: map_of_eq_None_iff)
    with Cons.prems p r None ih show ?thesis
      by (simp add: size_errors_def missing_keys_def map_of_store_shapes)
  next
    case (Some t)
    then have k: "k \<in> set (map fst sd)" by (metis map_of_eq_None_iff option.distinct(1) set_map)
    show ?thesis
    proof (cases "shape t = shape (h ! a)")
      case True
      with Cons.prems p Some have l: "load_params ps sd (h[a := t]) = (h', errs, miss)" by simp
      have b': "\<forall>c \<in> snd ` set ps. c < length (h[a := t])" using b by simp
      have "heap_shapes (h[a := t]) ps = heap_shapes h ps"
        by (rule heap_shapes_cong [OF map_shape_update [OF True] b])
      with Cons.IH [OF b' l] True Some k p show ?thesis
        by (simp add: size_errors_def missing_keys_def map_of_store_shapes)
    next
      case False
      with Cons.prems p r Some ih k show ?thesis
        by (simp add: size_errors_def missing_keys_def map_of_store_shapes)
    qed
  qed
qed

lemma load_params_values:
  "distinct (map snd ps) \<Longrightarrow> \<forall>a \<in> snd ` set ps. a < length h \<Longrightarrow>
   load_params ps sd h = (h', errs, miss) \<Longrightarrow>
     (\<forall>(k, a) \<in> set ps. h' ! a =
        (case map_of sd k of
           None \<Rightarrow> h ! a
         | Some t \<Rightarrow> if shape t = shape (h ! a) then t else h ! a))
     \<and> (\<forall>b. b \<notin> snd ` set ps \<longrightarrow> h' ! b = h ! b)"
proof (induction ps arbitrary: h h' errs miss)
  case Nil
  then show ?case by simp
next
  case (Cons p ps)
  obtain k a where p: "p = (k, a)" by (cases p)
  obtain h1 e1 m1 where r: "load_params ps sd h = (h1, e1, m1)" by (cases "load_params ps sd h")
  from Cons.prems(1) p have d: "distinct (map snd ps)" and na: "a \<notin> snd ` set ps" by auto
  from Cons.prems(2) p have b: "\<forall>a \<in> snd ` set ps. a < length h" and al: "a < length h" by auto
  have skip: ?case if "h' = h1" "map_of sd k = None \<or> (\<exists>t. map_of sd k = Some t \<and> shape t \<noteq> shape (h ! a))"
  proof -
    from Cons.IH [OF d b r] that(1) na have "h' ! a = h ! a" by simp
    with Cons.IH [OF d b r] that p show ?thesis by auto
  qed
  show ?case
  proof (cases "map_of sd k")
    case None
    with Cons.prems p r have "h' = h1" by simp
    with None skip show ?thesis by simp
  next
    case (Some t)
    show ?thesis
    proof (cases "shape t = shape (h ! a)")
      case True
      with Cons.prems p Some have l: "load_params ps sd (h[a := t]) = (h', errs, miss)" by simp
      have b': "\<forall>c \<in> snd ` set ps. c < length (h[a := t])" using b by simp
      note ih = Cons.IH [OF d b' l]
      have other: "(h[a := t]) ! c = h ! c" if "c \<in> snd ` set ps" for c
        using that na by (metis nth_list_update_neq)
      have 1: "h' ! a = t" using ih na al by simp
      have 2: "\<forall>(k', a') \<in> set ps. h' ! a' =
        (case map_of sd k' of None \<Rightarrow> h ! a'
         | Some t' \<Rightarrow> if shape t' = shape (h ! a') then t' else h ! a')"
      proof (clarify)
        fix k' a' assume m: "(k', a') \<in> set ps"
        then have "a' \<in> snd ` set ps" by force
        note o = other [OF this]
        from ih have "\<forall>(k, c) \<in> set ps. h' ! c =
          (case map_of sd k of None \<Rightarrow> (h[a := t]) ! c
           | Some t' \<Rightarrow> if shape t' = shape ((h[a := t]) ! c) then t' else (h[a := t]) ! c)"
          by blast
        from bspec [OF this m] have "h' ! a' =
          (case map_of sd k' of None \<Rightarrow> (h[a := t]) ! a'
           | Some t' \<Rightarrow> if shape t' = shape ((h[a := t]) ! a') then t' else (h[a := t]) ! a')"
          by simp
        then show "h' ! a' = (case map_of sd k' of None \<Rightarrow> h ! a'
         | Some t' \<Rightarrow> if shape t' = shape (h ! a') then t' else h ! a')"
          by (simp only: o)
      qed
      have 3: "\<forall>b. b \<notin> snd ` set (p # ps) \<longrightarrow> h' ! b = h ! b"
        using ih p by auto
      from 1 2 3 p Some True show ?thesis by simp
    next
      case False
      with Cons.prems p r Some have "h' = h1" by simp
      with Some False skip show ?thesis by simp
    qed
  qed
qed

lemma load_state_dict_result:
  assumes "\<forall>a \<in> snd ` set (state_dict m). a < length h"
  shows "fst (load_state_dict m sd h) =
     (let r = report (heap_shapes h (state_dict m)) (store_shapes sd)
      in if r = [] then Inr () else Inl (ShapeMismatch r))"
proof -
  obtain h' errs miss where l: "load_params (state_dict m) sd h = (h', errs, miss)"
    by (cases "load_params (state_dict m) sd h")
  from load_params_report [OF assms l] l show ?thesis
    by (simp add: load_state_dict_def report_def Let_def unexpected_keys_def)
qed

lemma size_errors_same: "distinct (map fst own) \<Longrightarrow> size_errors own own = []"
proof -
  assume d: "distinct (map fst own)"
  have "\<forall>x \<in> set own. (case x of (k, s) \<Rightarrow> case map_of own k of None \<Rightarrow> []
          | Some s' \<Rightarrow> if s' \<noteq> s then [Size_mismatch k s' s] else []) = []"
  proof
    fix x assume x: "x \<in> set own"
    obtain k s where ks: "x = (k, s)" by (cases x)
    with d x have "map_of own k = Some s" by simp
    with ks show "(case x of (k, s) \<Rightarrow> case map_of own k of None \<Rightarrow> []
          | Some s' \<Rightarrow> if s' \<noteq> s then [Size_mismatch k s' s] else []) = []" by simp
  qed
  then show ?thesis by (simp add: size_errors_def)
qed

lemma report_same: "distinct (map fst own) \<Longrightarrow> report own own = []"
  by (simp add: report_def missing_keys_def unexpected_keys_def size_errors_same)

lemma store_shapes_param_store [simp]:
  "store_shapes (param_store h m) = heap_shapes h (state_dict m)"
  by (simp add: store_shapes_def param_store_def heap_shapes_def case_prod_unfold)

lemma load_state_dict_ok:
  assumes d1: "distinct (map fst (state_dict m))"
    and d2: "distinct (map snd (state_dict m))"
    and b: "\<forall>a \<in> snd ` set (state_dict m). a < length h"
    and sh: "store_shapes sd = heap_shapes h (state_dict m)"
  shows "\<exists>h'. load_state_dict m sd h = (Inr (), h') \<and> param_store h' m = sd"
proof -
  let ?ps = "state_dict m"
  obtain h' errs miss where l: "load_params ?ps sd h = (h', errs, miss)"
    by (cases "load_params ?ps sd h")
  have keys: "map fst sd = map fst ?ps"
    using arg_cong [OF sh, of "map fst"] by simp
  have len: "length sd = length ?ps" using keys by (metis length_map)
  have "report (heap_shapes h ?ps) (store_shapes sd) = []"
    using report_same [of "heap_shapes h ?ps"] d1 sh by simp
  with load_state_dict_result [OF b, of sd] have "fst (load_state_dict m sd h) = Inr ()"
    by (simp add: Let_def)
  moreover have "snd (load_state_dict m sd h) = h'"
    using l by (simp add: load_state_dict_def Let_def)
  ultimately have r: "load_state_dict m sd h = (Inr (), h')" by (metis prod.collapse)
  note v = load_params_values [OF d2 b l]
  have "param_store h' m = sd"
  proof (rule nth_equalityI)
    show "length (param_store h' m) = length sd" using len by (simp add: param_store_def)
  next
    fix i assume "i < length (param_store h' m)"
    then have i: "i < length ?ps" by (simp add: param_store_def)
    obtain k a where ka: "?ps ! i = (k, a)" by (cases "?ps ! i")
    obtain k' t where kt: "sd ! i = (k', t)" by (cases "sd ! i")
    from i ka have mem: "(k, a) \<in> set ?ps" by (metis nth_mem)
    have "k' = k"
      using keys i len ka kt by (metis fst_conv nth_map)
    have "store_shapes sd ! i = heap_shapes h ?ps ! i" using sh by simp
    with i len ka kt have st: "shape t = shape (h ! a)"
      by (simp add: store_shapes_def heap_shapes_def)
    have "distinct (map fst sd)" using keys d1 by simp
    moreover have "(k, t) \<in> set sd" using kt \<open>k' = k\<close> i len by (metis nth_mem)
    ultimately have "map_of sd k = Some t" by simp
    with v mem st have "h' ! a = t" by fastforce
    with i ka kt \<open>k' = k\<close> show "param_store h' m ! i = sd ! i"
      by (simp add: param_store_def)
  qed
  with r show ?thesis by blast
qed

lemma pickle_param_store: "pickle_state_dict h (state_dict m) = param_store h m"
  by (simp add: pickle_state_dict_def param_store_def)

lemma torch_load_saved_state_dict:
  "torch_load path (torch_save_state_dict (state_dict m) path h fs)
     = Inr (Pickled_state_dict (param_store h m))"
  by (simp add: torch_load_def torch_save_state_dict_def pickle_param_store
      Pickled_state_dict_def)

lemma load_saved_checkpoint:
  assumes "Network rng d h0 = (Inr m, h1)"
    and "input_size d = 784" and "output_size d = 10"
    and "store_shapes (param_store h m) = store_shapes (param_store h1 m)"
  shows "\<exists>m' h''. load_checkpoint rng' path
                     (torch_save_checkpoint (checkpoint m) path h fs) h' = (Inr m', h'')
                   \<and> param_store h'' m' = param_store h m \<and> training m'"
proof -
  from assms(1) have v: "valid_descriptor d" by (rule Network_Inr_valid)
  from Network_props [OF v, of rng h0] assms(1)
  have s1: "heap_shapes h1 (state_dict m) = param_shapes d"
    and o: "map out_features (hidden_layers m) = hidden_sizes d" by auto
  from Network_props [OF v, of rng' h'] obtain m' h1' where
    N: "Network rng' d h' = (Inr m', h1')"
    and s2: "heap_shapes h1' (state_dict m') = param_shapes d"
    and ad: "map snd (state_dict m') = [length h'..<length h1']"
    and tr: "training m'" by blast
  have d1: "distinct (map fst (state_dict m'))"
    using arg_cong [OF s2, of "map fst"] distinct_param_shapes [of d] by simp
  have d2: "distinct (map snd (state_dict m'))" using ad by simp
  have b: "\<forall>a \<in> snd ` set (state_dict m'). a < length h1'"
    using ad by (metis atLeastLessThan_iff set_map set_upt)
  have sh: "store_shapes (param_store h m) = heap_shapes h1' (state_dict m')"
    using assms(4) s1 s2 by simp
  from load_state_dict_ok [OF d1 d2 b sh] obtain h'' where
    L: "load_state_dict m' (param_store h m) h1' = (Inr (), h'')"
    and P: "param_store h'' m' = param_store h m" by blast
  have D: "\<lparr>input_size = 784, output_size = 10, hidden_sizes = hidden_sizes d\<rparr> = d"
    using assms(2,3) by simp
  have "load_checkpoint rng' path (torch_save_checkpoint (checkpoint m) path h fs) h'
          = (Inr m', h'')"
    using N L o D
    by (simp add: load_checkpoint_def torch_load_def Pickled_checkpoint_def getitem_def
        Network_call_def load_state_dict_value_def torch_save_checkpoint_def checkpoint_def
        pickle_param_store)
  with P tr show ?thesis by blast
qed

lemma Pickled_checkpoint_inj: "Pickled_checkpoint c = Pickled_checkpoint c' \<Longrightarrow> c = c'"
  by (cases c, cases c') (simp add: Pickled_checkpoint_def)

lemma Network_allocates:
  assumes "Network rng d h = (Inr m, h1)"
  shows "length h < length h1"
proof -
  from assms have v: "valid_descriptor d" by (rule Network_Inr_valid)
  from Network_props [OF v, of rng h] assms
  have "map snd (state_dict m) = [length h..<length h1]" by auto
  moreover have "state_dict m \<noteq> []" by (simp add: state_dict_def linear_params_def)
  ultimately show ?thesis by (cases "length h < length h1") auto
qed

lemma Network_call_allocates:
  assumes "Network_call rng v1 v2 v3 h = (Inr m, h1)"
  shows "length h < length h1"
  using assms
  by (auto simp: Network_call_def split: pyval.splits dest: Network_allocates)

lemma str_nat_digits [simp]:
  "str_nat 0 = ''0''" "str_nat (Suc 0) = ''1''" "str_nat (Suc (Suc 0)) = ''2''"
  "str_nat 1 = ''1''" "str_nat 2 = ''2''" "str_nat 3 = ''3''"
  by (simp_all add: str_nat_small digit_char_def)

lemma reported_keys_report:
  "reported_keys (report own ckpt) =
     set (missing_keys own ckpt) \<union> set (unexpected_keys own ckpt)
     \<union> reported_keys (size_errors own ckpt)"
  by (auto simp: reported_keys_def report_def)

lemma size_errors_mem:
  "(k, s) \<in> set own \<Longrightarrow> map_of ckpt k = Some s' \<Longrightarrow> s' \<noteq> s \<Longrightarrow>
     Size_mismatch k s' s \<in> set (size_errors own ckpt)"
  by (force simp: size_errors_def)

lemma report_mem_size:
  "x \<in> set (size_errors own ckpt) \<Longrightarrow> x \<in> set (report own ckpt)"
  by (simp add: report_def)

lemma strict_loading_general:
  assumes "\<forall>a \<in> snd ` set (state_dict model). a < length h"
  shows "\<exists>r. fst (load_state_dict model sd h) = (if r = [] then Inr () else Inl (ShapeMismatch r))
      \<and> (\<forall>k. k \<in> fst ` set (state_dict model) \<and> k \<notin> fst ` set sd \<longrightarrow> k \<in> reported_keys r)
      \<and> (\<forall>k. k \<in> fst ` set sd \<and> k \<notin> fst ` set (state_dict model) \<longrightarrow> k \<in> reported_keys r)
      \<and> (\<forall>k a t. (k, a) \<in> set (state_dict model) \<and> map_of sd k = Some t
                  \<and> shape t \<noteq> shape (h ! a)
            \<longrightarrow> Size_mismatch k (shape t) (shape (h ! a)) \<in> set r)"
proof -
  let ?own = "heap_shapes h (state_dict model)"
  let ?ck = "store_shapes sd"
  let ?r = "report ?own ?ck"
  have 1: "fst (load_state_dict model sd h) = (if ?r = [] then Inr () else Inl (ShapeMismatch ?r))"
    using load_state_dict_result [OF assms, of sd] by (simp add: Let_def)
  have 2: "k \<in> reported_keys ?r" if "k \<in> fst ` set (state_dict model)" "k \<notin> fst ` set sd" for k
    using that by (simp add: reported_keys_report missing_keys_def)
  have 3: "k \<in> reported_keys ?r" if "k \<in> fst ` set sd" "k \<notin> fst ` set (state_dict model)" for k
    using that by (simp add: reported_keys_report unexpected_keys_def)
  have 4: "Size_mismatch k (shape t) (shape (h ! a)) \<in> set ?r"
    if "(k, a) \<in> set (state_dict model)" "map_of sd k = Some t" "shape t \<noteq> shape (h ! a)" for k a t
  proof -
    from that(1) have "(k, shape (h ! a)) \<in> set ?own" by (force simp: heap_shapes_def)
    moreover from that(2) have "map_of ?ck k = Some (shape t)" by (simp add: map_of_store_shapes)
    ultimately show ?thesis using that(3) by (intro report_mem_size size_errors_mem)
  qed
  from 1 2 3 4 show ?thesis by blast
qed

lemma scenario_B_report:
  "report (param_shapes \<lparr>input_size = 784, output_size = 10, hidden_sizes = [400, 200, 100]\<rparr>)
          (param_shapes \<lparr>input_size = 784, output_size = 10, hidden_sizes = [512, 256, 128]\<rparr>)
   = [Size_mismatch ''hidden_layers.0.weight'' [512, 784] [400, 784],
      Size_mismatch ''hidden_layers.0.bias'' [512] [400],
      Size_mismatch ''hidden_layers.1.weight'' [256, 512] [200, 400],
      Size_mismatch ''hidden_layers.1.bias'' [256] [200],
      Size_mismatch ''hidden_layers.2.weight'' [128, 256] [100, 200],
      Size_mismatch ''hidden_layers.2.bias'' [128] [100],
      Size_mismatch ''output.weight'' [10, 128] [10, 100]]"
  by (simp add: param_shapes_def linear_shapes_def report_def missing_keys_def
      unexpected_keys_def size_errors_def)

lemma scenario_B:
  "(case Network rngA \<lparr>input_size = 784, output_size = 10, hidden_sizes = [512, 256, 128]\<rparr> hA of
      (Inl e, hA') \<Rightarrow> False
    | (Inr mA, hA') \<Rightarrow>
       (case Network rngB \<lparr>input_size = 784, output_size = 10, hidden_sizes = [400, 200, 100]\<rparr> hB of
          (Inl e, hB') \<Rightarrow> False
        | (Inr mB, hB') \<Rightarrow>
            fst (load_state_dict mB (param_store hA' mA) hB')
            = Inl (ShapeMismatch
               [Size_mismatch ''hidden_layers.0.weight'' [512, 784] [400, 784],
                Size_mismatch ''hidden_layers.0.bias'' [512] [400],
                Size_mismatch ''hidden_layers.1.weight'' [256, 512] [200, 400],
                Size_mismatch ''hidden_layers.1.bias'' [256] [200],
                Size_mismatch ''hidden_layers.2.weight'' [128, 256] [100, 200],
                Size_mismatch ''hidden_layers.2.bias'' [128] [100],
                Size_mismatch ''output.weight'' [10, 128] [10, 100]])))"
proof -
  let ?dA = "\<lparr>input_size = 784, output_size = 10, hidden_sizes = [512, 256, 128]\<rparr>"
  let ?dB = "\<lparr>input_size = 784, output_size = 10, hidden_sizes = [400, 200, 100]\<rparr>"
  have vA: "valid_descriptor ?dA" and vB: "valid_descriptor ?dB"
    by (simp_all add: valid_descriptor_def)
  from Network_props [OF vA, of rngA hA] obtain mA hA' where
    A: "Network rngA ?dA hA = (Inr mA, hA')"
    and sA: "heap_shapes hA' (state_dict mA) = param_shapes ?dA" by blast
  from Network_props [OF vB, of rngB hB] obtain mB hB' where
    B: "Network rngB ?dB hB = (Inr mB, hB')"
    and sB: "heap_shapes hB' (state_dict mB) = param_shapes ?dB"
    and ad: "map snd (state_dict mB) = [length hB..<length hB']" by blast
  have b: "\<forall>a \<in> snd ` set (state_dict mB). a < length hB'"
    using ad by (metis atLeastLessThan_iff set_map set_upt)
  have "fst (load_state_dict mB (param_store hA' mA) hB')
          = Inl (ShapeMismatch (report (param_shapes ?dB) (param_shapes ?dA)))"
    using load_state_dict_result [OF b, of "param_store hA' mA"] sA sB
    by (simp add: Let_def scenario_B_report)
  then show ?thesis using A B by (simp add: scenario_B_report)
qed

lemma state_dict_flag [simp]:
  "state_dict (eval model) = state_dict model" "state_dict (train model) = state_dict model"
  by (simp_all add: state_dict_def eval_def train_def)

lemma checkpoint_flag [simp]:
  "checkpoint (eval model) = checkpoint model" "checkpoint (train model) = checkpoint model"
  by (simp_all add: checkpoint_def eval_def train_def state_dict_def)

lemma param_store_flag [simp]:
  "param_store h (eval model) = param_store h model"
  "param_store h (train model) = param_store h model"
  by (simp_all add: param_store_def)

section \<open>Lemmas about the classifier with dropout\<close>

lemma dot_zero: "sum_list (map (\<lambda>(w, v). w * v) (zip (replicate n (0::real)) x)) = 0"
proof (induction n arbitrary: x)
  case 0
  then show ?case by simp
next
  case (Suc n)
  then show ?case by (cases x) simp_all
qed

lemma linear_forward_constant: "linear_forward (constant_fc n_in n_out) x = replicate n_out 1"
  by (simp add: linear_forward_def constant_fc_def zip_replicate dot_zero)

lemma relu_ones: "F_relu (replicate n 1) = replicate n 1"
  by (simp add: F_relu_def)

lemma map_enumerate_snd: "map (\<lambda>(i, v). g v) (enumerate n x) = map g x"
  by (induction x arbitrary: n) simp_all

lemma dropout_all: "F_dropout (\<lambda>i. True) (replicate n 1) (1 / 2) True = replicate n 2"
  using map_enumerate_snd [of "\<lambda>v. v / (1 - 1 / 2)" 0 "replicate n (1::real)"]
  by (simp add: F_dropout_def)

lemma dropout_none: "F_dropout (\<lambda>i. False) (replicate n 1) (1 / 2) True = replicate n 0"
  using map_enumerate_snd [of "\<lambda>v. 0" 0 "replicate n (1::real)"]
  by (simp add: F_dropout_def)

lemma linear_forward_first_row:
  "linear_forward first_row_fc (replicate 64 c) = (64 * c) # replicate 9 0"
  by (simp add: linear_forward_def first_row_fc_def zip_replicate sum_list_replicate)

lemma log_softmax_first:
  "F_log_softmax (a # replicate 9 0)
     = (a - ln (exp a + 9)) # replicate 9 (0 - ln (exp a + 9))"
  by (simp add: F_log_softmax_def sum_list_replicate)

lemma forward_keep_all:
  "forward (classifier_eval sample_classifier) (\<lambda>j i. True) x
     = (128 - ln (exp 128 + 9)) # replicate 9 (0 - ln (exp 128 + 9))"
  by (simp add: forward_def classifier_eval_def sample_classifier_def linear_forward_constant
      relu_ones dropout_all linear_forward_first_row log_softmax_first)

lemma forward_keep_none:
  "forward (classifier_eval sample_classifier) (\<lambda>j i. False) x
     = (0 - ln (exp 0 + 9)) # replicate 9 (0 - ln (exp 0 + 9))"
  using linear_forward_first_row [of 0] log_softmax_first [of 0]
  by (simp add: forward_def classifier_eval_def sample_classifier_def linear_forward_constant
      relu_ones dropout_none)

lemma sample_is_DropoutClassifier: "is_DropoutClassifier (classifier_eval sample_classifier)"
  by (simp add: is_DropoutClassifier_def fc_shape_def classifier_eval_def sample_classifier_def
      constant_fc_def first_row_fc_def list_all_iff)

lemma forward_depends_on_mask:
  "forward (classifier_eval sample_classifier) (\<lambda>j i. True) x
     \<noteq> forward (classifier_eval sample_classifier) (\<lambda>j i. False) x"
proof
  assume "forward (classifier_eval sample_classifier) (\<lambda>j i. True) x
     = forward (classifier_eval sample_classifier) (\<lambda>j i. False) x"
  then have "replicate 9 (0 - ln (exp (128::real) + 9)) = replicate 9 (0 - ln (exp (0::real) + 9))"
    unfolding forward_keep_all forward_keep_none by simp
  then have "ln (exp (128::real) + 9) = ln (exp (0::real) + 9)"
    by (simp add: replicate_eq_replicate)
  moreover have "0 < exp (128::real) + 9" "0 < exp (0::real) + 9"
    by (simp_all add: add_pos_pos)
  ultimately have "exp (128::real) + 9 = exp (0::real) + 9"
    by (simp only: ln_inj_iff)
  then show False by simp
qed

section \<open>The save cell\<close>

text \<open>
  C9. The save cell records \<open>hidden_layers\<close> as the output widths of the hidden layers of
  the live model, in order, and records \<open>input_size\<close> and \<open>output_size\<close> as the constants
  784 and 10 whatever the model is. So the recorded architecture is the actual one of the
  model exactly when the model's input width is 784 and its output width is 10.
\<close>

theorem checkpoint_architecture:
  "ck_input_size (checkpoint model) = 784
   \<and> ck_output_size (checkpoint model) = 10
   \<and> ck_hidden_layers (checkpoint model) = map out_features (hidden_layers model)
   \<and> (recorded_architecture (checkpoint model) = actual_architecture model
        \<longleftrightarrow> input_size (actual_architecture model) = 784
              \<and> output_size (actual_architecture model) = 10)"
  by (auto simp: checkpoint_def recorded_architecture_def actual_architecture_def)

theorem checkpoint_architecture_witness:
  "recorded_architecture
     (checkpoint \<lparr>hidden_layers = [\<lparr>in_features = 784, out_features = 3, weight = 0, bias = 1\<rparr>],
                  output_layer = \<lparr>in_features = 3, out_features = 10, weight = 2, bias = 3\<rparr>,
                  training = True\<rparr>)
   = actual_architecture
       \<lparr>hidden_layers = [\<lparr>in_features = 784, out_features = 3, weight = 0, bias = 1\<rparr>],
        output_layer = \<lparr>in_features = 3, out_features = 10, weight = 2, bias = 3\<rparr>,
        training = True\<rparr>"
  using checkpoint_architecture
    [of "\<lparr>hidden_layers = [\<lparr>in_features = 784, out_features = 3, weight = 0, bias = 1\<rparr>],
          output_layer = \<lparr>in_features = 3, out_features = 10, weight = 2, bias = 3\<rparr>,
          training = True\<rparr>"]
  by (simp add: actual_architecture_def)

section \<open>Round trip of a checkpoint\<close>

text \<open>
  C1, as stated, fails: the save cell writes 784 and 10 whatever the descriptor of the
  model was. For the valid descriptor with input width 2, output width 1 and one hidden
  layer of width 1, the model built from it is saved and loaded again; the load rebuilds
  a network of input width 784 and output width 10 and strict loading refuses the saved
  parameters.
\<close>

theorem round_trip_counterexample:
  "valid_descriptor \<lparr>input_size = 2, output_size = 1, hidden_sizes = [1]\<rparr>
   \<and> Network (\<lambda>a i. 0::int) \<lparr>input_size = 2, output_size = 1, hidden_sizes = [1]\<rparr> []
       = (Inr \<lparr>hidden_layers = [\<lparr>in_features = 2, out_features = 1, weight = 0, bias = 1\<rparr>],
               output_layer = \<lparr>in_features = 1, out_features = 1, weight = 2, bias = 3\<rparr>,
               training = True\<rparr>,
          [Tensor [1, 2] [0, 0], Tensor [1] [0], Tensor [1, 1] [0], Tensor [1] [0]])
   \<and> fst (load_checkpoint (\<lambda>a i. 0::int) ''checkpoint.pth''
            (torch_save_checkpoint
               (checkpoint
                  \<lparr>hidden_layers = [\<lparr>in_features = 2, out_features = 1, weight = 0, bias = 1\<rparr>],
                   output_layer = \<lparr>in_features = 1, out_features = 1, weight = 2, bias = 3\<rparr>,
                   training = True\<rparr>)
               ''checkpoint.pth''
               [Tensor [1, 2] [0, 0], Tensor [1] [0], Tensor [1, 1] [0], Tensor [1] [0]]
               Map.empty)
            [Tensor [1, 2] [0, 0], Tensor [1] [0], Tensor [1, 1] [0], Tensor [1] [0]])
       = Inl (ShapeMismatch
           [Size_mismatch ''hidden_layers.0.weight'' [1, 2] [1, 784],
            Size_mismatch ''output.weight'' [1, 1] [10, 1],
            Size_mismatch ''output.bias'' [1] [10]])"
proof -
  have "valid_descriptor \<lparr>input_size = 2, output_size = 1, hidden_sizes = [1]\<rparr>"
    by (simp add: valid_descriptor_def)
  moreover have "Network (\<lambda>a i. 0::int) \<lparr>input_size = 2, output_size = 1, hidden_sizes = [1]\<rparr> []
       = (Inr \<lparr>hidden_layers = [\<lparr>in_features = 2, out_features = 1, weight = 0, bias = 1\<rparr>],
               output_layer = \<lparr>in_features = 1, out_features = 1, weight = 2, bias = 3\<rparr>,
               training = True\<rparr>,
          [Tensor [1, 2] [0, 0], Tensor [1] [0], Tensor [1, 1] [0], Tensor [1] [0]])"
    by (simp add: Network_def valid_descriptor_def nn_Linear_def new_tensor_def numel_def
        upt_rec)
  moreover have "fst (load_checkpoint (\<lambda>a i. 0::int) ''checkpoint.pth''
            (torch_save_checkpoint
               (checkpoint
                  \<lparr>hidden_layers = [\<lparr>in_features = 2, out_features = 1, weight = 0, bias = 1\<rparr>],
                   output_layer = \<lparr>in_features = 1, out_features = 1, weight = 2, bias = 3\<rparr>,
                   training = True\<rparr>)
               ''checkpoint.pth''
               [Tensor [1, 2] [0, 0], Tensor [1] [0], Tensor [1, 1] [0], Tensor [1] [0]]
               Map.empty)
            [Tensor [1, 2] [0, 0], Tensor [1] [0], Tensor [1, 1] [0], Tensor [1] [0]])
       = Inl (ShapeMismatch
           [Size_mismatch ''hidden_layers.0.weight'' [1, 2] [1, 784],
            Size_mismatch ''output.weight'' [1, 1] [10, 1],
            Size_mismatch ''output.bias'' [1] [10]])"
    by (simp add: load_checkpoint_def torch_load_def Pickled_checkpoint_def getitem_def
        Network_call_def load_state_dict_value_def torch_save_checkpoint_def checkpoint_def
        pickle_state_dict_def state_dict_def linear_params_def
        Network_def valid_descriptor_def nn_Linear_def load_state_dict_def Let_def)
  ultimately show ?thesis by blast
qed

text \<open>
  C1, amended: for every descriptor \<open>d\<close> whose input width is 784 and output width is 10
  and every model \<open>m\<close> built from \<open>d\<close>, whatever values its parameters have at the time of
  the save (training changes the values in place and never the shapes), saving \<open>m\<close> with
  the save cell and loading the file yields a model whose Parameter Store is equal to
  that of \<open>m\<close> at the time of the save, key for key and element for element. The heap at
  the time of the load and the seed used to rebuild the network are arbitrary.
\<close>

theorem round_trip_784_10:
  assumes "input_size d = 784" and "output_size d = 10"
    and "Network rng d h0 = (Inr m, h1)"
    and "store_shapes (param_store h m) = store_shapes (param_store h1 m)"
  shows "\<exists>m' h''. load_checkpoint rng' path
                     (torch_save_checkpoint (checkpoint m) path h fs) h' = (Inr m', h'')
                   \<and> param_store h'' m' = param_store h m"
  using load_saved_checkpoint [OF assms(3) assms(1) assms(2) assms(4)] by blast

theorem round_trip_784_10_witness:
  "\<exists>m' h''.
     load_checkpoint (\<lambda>a i. 0::int) ''checkpoint.pth''
       (torch_save_checkpoint
          (checkpoint
             \<lparr>hidden_layers = [\<lparr>in_features = 784, out_features = 2, weight = 0, bias = 1\<rparr>],
              output_layer = \<lparr>in_features = 2, out_features = 10, weight = 2, bias = 3\<rparr>,
              training = True\<rparr>)
          ''checkpoint.pth''
          [Tensor [2, 784] (replicate 1568 5), Tensor [2] [6, 7],
           Tensor [10, 2] (replicate 20 8), Tensor [10] (replicate 10 9)]
          Map.empty)
       [] = (Inr m', h'')
     \<and> param_store h'' m'
         = param_store
             [Tensor [2, 784] (replicate 1568 5), Tensor [2] [6, 7],
              Tensor [10, 2] (replicate 20 8), Tensor [10] (replicate 10 9)]
             \<lparr>hidden_layers = [\<lparr>in_features = 784, out_features = 2, weight = 0, bias = 1\<rparr>],
              output_layer = \<lparr>in_features = 2, out_features = 10, weight = 2, bias = 3\<rparr>,
              training = True\<rparr>"
proof -
  let ?d = "\<lparr>input_size = 784, output_size = 10, hidden_sizes = [2]\<rparr>"
  let ?m = "\<lparr>hidden_layers = [\<lparr>in_features = 784, out_features = 2, weight = 0, bias = 1\<rparr>],
             output_layer = \<lparr>in_features = 2, out_features = 10, weight = 2, bias = 3\<rparr>,
             training = True\<rparr>"
  let ?h1 = "[new_tensor (\<lambda>a i. 1::int) 0 [2, 784], new_tensor (\<lambda>a i. 1) 1 [2],
             new_tensor (\<lambda>a i. 1) 2 [10, 2], new_tensor (\<lambda>a i. 1) 3 [10]]"
  let ?h = "[Tensor [2, 784] (replicate 1568 (5::int)), Tensor [2] [6, 7],
            Tensor [10, 2] (replicate 20 8), Tensor [10] (replicate 10 9)]"
  have 1: "input_size ?d = 784" and 2: "output_size ?d = 10" by simp_all
  have 3: "Network (\<lambda>a i. 1::int) ?d [] = (Inr ?m, ?h1)"
    by (simp add: Network_def valid_descriptor_def nn_Linear_def eval_nat_numeral)
  have 4: "store_shapes (param_store ?h ?m) = store_shapes (param_store ?h1 ?m)"
    by (simp add: heap_shapes_def state_dict_def linear_params_def)
  from round_trip_784_10 [OF 1 2 3 4] show ?thesis .
qed

section \<open>The network factory\<close>

text \<open>
  C4. The keys and the shapes of the Parameter Store of a model built from a descriptor
  \<open>d\<close> are \<open>param_shapes d\<close>, a function of \<open>d\<close> alone: neither the seed nor the heap the
  model is built in matters. Hence two models built from the same descriptor have
  Parameter Stores with the same keys, in the same order, and the same shape under
  every key.
\<close>

theorem build_shapes_pure:
  assumes "Network rng1 d h1 = (Inr m1, h1')" and "Network rng2 d h2 = (Inr m2, h2')"
  shows "store_shapes (param_store h1' m1) = param_shapes d
         \<and> store_shapes (param_store h2' m2) = store_shapes (param_store h1' m1)"
proof -
  from assms(1) have v: "valid_descriptor d" by (rule Network_Inr_valid)
  from Network_props [OF v, of rng1 h1] assms(1)
  have "heap_shapes h1' (state_dict m1) = param_shapes d" by auto
  moreover from Network_props [OF v, of rng2 h2] assms(2)
  have "heap_shapes h2' (state_dict m2) = param_shapes d" by auto
  ultimately show ?thesis by simp
qed

theorem build_shapes_pure_witness:
  "store_shapes
     (param_store [Tensor [4, 3] (replicate 12 0), Tensor [4] (replicate 4 0),
                   Tensor [2, 4] (replicate 8 0), Tensor [2] (replicate 2 (0::int))]
        \<lparr>hidden_layers = [\<lparr>in_features = 3, out_features = 4, weight = 0, bias = 1\<rparr>],
         output_layer = \<lparr>in_features = 4, out_features = 2, weight = 2, bias = 3\<rparr>,
         training = True\<rparr>)
   = [(''hidden_layers.0.weight'', [4, 3]), (''hidden_layers.0.bias'', [4]),
      (''output.weight'', [2, 4]), (''output.bias'', [2])]
   \<and> store_shapes
       (param_store [Tensor [1] [7], Tensor [4, 3] (replicate 12 1), Tensor [4] (replicate 4 1),
                     Tensor [2, 4] (replicate 8 1), Tensor [2] (replicate 2 (1::int))]
          \<lparr>hidden_layers = [\<lparr>in_features = 3, out_features = 4, weight = 1, bias = 2\<rparr>],
           output_layer = \<lparr>in_features = 4, out_features = 2, weight = 3, bias = 4\<rparr>,
           training = True\<rparr>)
     = [(''hidden_layers.0.weight'', [4, 3]), (''hidden_layers.0.bias'', [4]),
        (''output.weight'', [2, 4]), (''output.bias'', [2])]"
proof -
  let ?d = "\<lparr>input_size = 3, output_size = 2, hidden_sizes = [4]\<rparr>"
  have 1: "Network (\<lambda>a i. 0::int) ?d []
    = (Inr \<lparr>hidden_layers = [\<lparr>in_features = 3, out_features = 4, weight = 0, bias = 1\<rparr>],
            output_layer = \<lparr>in_features = 4, out_features = 2, weight = 2, bias = 3\<rparr>,
            training = True\<rparr>,
       [Tensor [4, 3] (replicate 12 0), Tensor [4] (replicate 4 0),
        Tensor [2, 4] (replicate 8 0), Tensor [2] (replicate 2 0)])"
    by (simp add: Network_def valid_descriptor_def nn_Linear_def new_tensor_def numel_def
        map_replicate_const)
  have 2: "Network (\<lambda>a i. 1::int) ?d [Tensor [1] [7]]
    = (Inr \<lparr>hidden_layers = [\<lparr>in_features = 3, out_features = 4, weight = 1, bias = 2\<rparr>],
            output_layer = \<lparr>in_features = 4, out_features = 2, weight = 3, bias = 4\<rparr>,
            training = True\<rparr>,
       [Tensor [1] [7], Tensor [4, 3] (replicate 12 1), Tensor [4] (replicate 4 1),
        Tensor [2, 4] (replicate 8 1), Tensor [2] (replicate 2 1)])"
    by (simp add: Network_def valid_descriptor_def nn_Linear_def new_tensor_def numel_def
        map_replicate_const)
  have 3: "param_shapes ?d
    = [(''hidden_layers.0.weight'', [4, 3]), (''hidden_layers.0.bias'', [4]),
       (''output.weight'', [2, 4]), (''output.bias'', [2])]"
    by (simp add: param_shapes_def linear_shapes_def)
  from build_shapes_pure [OF 1 2] 3 show ?thesis by simp
qed

text \<open>
  C6. A descriptor with a non-positive width makes the factory fail with
  \<open>MalformedDescriptor\<close>, and the heap is returned as it was: no parameter has been
  allocated, not even those of the layers before the offending width.
\<close>

theorem malformed_descriptor_fails_first:
  assumes "input_size d \<le> 0 \<or> output_size d \<le> 0 \<or> (\<exists>w \<in> set (hidden_sizes d). w \<le> 0)"
  shows "Network rng d h = (Inl MalformedDescriptor, h)"
proof -
  from assms have "\<not> valid_descriptor d"
    by (force simp: valid_descriptor_def list_all_iff not_less)
  then show ?thesis by (rule Network_invalid)
qed

theorem malformed_descriptor_fails_first_witness:
  "Network (\<lambda>a i. 0::int) \<lparr>input_size = 784, output_size = 10, hidden_sizes = [512, 0, 128]\<rparr>
     [Tensor [1] [7]]
   = (Inl MalformedDescriptor, [Tensor [1] [7]])"
  using malformed_descriptor_fails_first
    [of "\<lparr>input_size = 784, output_size = 10, hidden_sizes = [512, 0, 128]\<rparr>"
        "\<lambda>a i. 0::int" "[Tensor [1] [7]]"]
  by simp

section \<open>Loading a checkpoint\<close>

text \<open>
  C7, as stated, fails: \<open>load_checkpoint\<close> looks \<open>'state_dict'\<close> up only after
  \<open>fc_model.Network\<close> has returned. A file that holds a dictionary with the three
  architecture entries 2, 1, [1] and no \<open>'state_dict'\<close> is not a checkpoint record and the
  load fails with \<open>ArtifactUnreadable\<close>, but the network has been built by then: the
  heap, empty before the call, holds its four parameters.
\<close>

theorem unreadable_after_construction_counterexample:
  "torch_load ''checkpoint.pth''
     [''checkpoint.pth'' \<mapsto> Pickled_dict
        [(''input_size'', PyInt 2), (''output_size'', PyInt 1),
         (''hidden_layers'', PyIntList [1])]]
   = Inr (Pickled_dict
        [(''input_size'', PyInt 2), (''output_size'', PyInt 1),
         (''hidden_layers'', PyIntList [1])])
   \<and> getitem (Pickled_dict
        [(''input_size'', PyInt 2), (''output_size'', PyInt 1),
         (''hidden_layers'', PyIntList [1 :: int]) :: string \<times> int pyval]) ''state_dict''
     = Inl ArtifactUnreadable
   \<and> load_checkpoint (\<lambda>a i. 0::int) ''checkpoint.pth''
       [''checkpoint.pth'' \<mapsto> Pickled_dict
          [(''input_size'', PyInt 2), (''output_size'', PyInt 1),
           (''hidden_layers'', PyIntList [1])]]
       []
     = (Inl ArtifactUnreadable,
        [Tensor [1, 2] [0, 0], Tensor [1] [0], Tensor [1, 1] [0], Tensor [1] [0]])"
  by (simp add: load_checkpoint_def torch_load_def getitem_def Network_call_def Network_def
      valid_descriptor_def nn_Linear_def new_tensor_def numel_def upt_rec Let_def)

text \<open>
  C7, amended: \<open>load_checkpoint\<close> deserializes first and calls the factory only then.
  When the file is absent or does not unpickle, or the loaded object has no entry
  \<open>'input_size'\<close>, \<open>'output_size'\<close> or \<open>'hidden_layers'\<close> (or is not a dictionary), the load
  fails with \<open>ArtifactUnreadable\<close> before the factory is called, and the heap is as it
  was. When the three entries are there, the factory is called with them in the heap of
  the call, and a failure of the factory is the result of the load. When the factory has
  built the network and the entry \<open>'state_dict'\<close> is missing or is not a state dict,
  the load fails with \<open>ArtifactUnreadable\<close> after the construction: the heap is the one
  the factory returned, which is longer than the heap of the call.
\<close>

theorem unreadable_artifact_order:
  "((torch_load filepath fs = Inl ArtifactUnreadable
       \<or> (\<exists>b. torch_load filepath fs = Inr b
              \<and> (getitem b ''input_size'' = Inl ArtifactUnreadable
                 \<or> getitem b ''output_size'' = Inl ArtifactUnreadable
                 \<or> getitem b ''hidden_layers'' = Inl ArtifactUnreadable)))
      \<longrightarrow> load_checkpoint rng filepath fs h = (Inl ArtifactUnreadable, h))
   \<and> (torch_load filepath fs = Inr b0
       \<and> getitem b0 ''input_size'' = Inr v1
       \<and> getitem b0 ''output_size'' = Inr v2
       \<and> getitem b0 ''hidden_layers'' = Inr v3
      \<longrightarrow> (\<forall>e h1. Network_call rng v1 v2 v3 h = (Inl e, h1)
                \<longrightarrow> load_checkpoint rng filepath fs h = (Inl e, h1))
          \<and> (\<forall>m h1. Network_call rng v1 v2 v3 h = (Inr m, h1)
                     \<and> (getitem b0 ''state_dict'' = Inl ArtifactUnreadable
                        \<or> (\<exists>v. getitem b0 ''state_dict'' = Inr v \<and> (\<forall>sd. v \<noteq> PyStateDict sd)))
                \<longrightarrow> load_checkpoint rng filepath fs h = (Inl ArtifactUnreadable, h1)
                    \<and> length h < length h1))"
proof (intro conjI impI allI)
  assume "torch_load filepath fs = Inl ArtifactUnreadable
       \<or> (\<exists>b. torch_load filepath fs = Inr b
              \<and> (getitem b ''input_size'' = Inl ArtifactUnreadable
                 \<or> getitem b ''output_size'' = Inl ArtifactUnreadable
                 \<or> getitem b ''hidden_layers'' = Inl ArtifactUnreadable))"
  moreover have "getitem b k = Inl e \<Longrightarrow> e = ArtifactUnreadable" for b :: "'a blob" and k e
    by (auto simp: getitem_def split: blob.splits option.splits)
  ultimately show "load_checkpoint rng filepath fs h = (Inl ArtifactUnreadable, h)"
    by (auto simp: load_checkpoint_def split: sum.splits)
next
  fix e h1
  assume "torch_load filepath fs = Inr b0 \<and> getitem b0 ''input_size'' = Inr v1
       \<and> getitem b0 ''output_size'' = Inr v2 \<and> getitem b0 ''hidden_layers'' = Inr v3"
    and "Network_call rng v1 v2 v3 h = (Inl e, h1)"
  then show "load_checkpoint rng filepath fs h = (Inl e, h1)"
    by (simp add: load_checkpoint_def)
next
  fix m h1
  assume a: "torch_load filepath fs = Inr b0 \<and> getitem b0 ''input_size'' = Inr v1
       \<and> getitem b0 ''output_size'' = Inr v2 \<and> getitem b0 ''hidden_layers'' = Inr v3"
    and n: "Network_call rng v1 v2 v3 h = (Inr m, h1)
            \<and> (getitem b0 ''state_dict'' = Inl ArtifactUnreadable
               \<or> (\<exists>v. getitem b0 ''state_dict'' = Inr v \<and> (\<forall>sd. v \<noteq> PyStateDict sd)))"
  from n show "length h < length h1" by (auto dest: Network_call_allocates)
  from n consider "getitem b0 ''state_dict'' = Inl ArtifactUnreadable"
    | v where "getitem b0 ''state_dict'' = Inr v" "\<forall>sd. v \<noteq> PyStateDict sd" by blast
  then show "load_checkpoint rng filepath fs h = (Inl ArtifactUnreadable, h1)"
  proof cases
    case 1
    with a n show ?thesis by (simp add: load_checkpoint_def)
  next
    case 2
    from 2(2) have "load_state_dict_value m v h1 = (Inl ArtifactUnreadable, h1)"
      by (cases v) (simp_all add: load_state_dict_value_def)
    with 2(1) a n show ?thesis by (simp add: load_checkpoint_def)
  qed
qed

theorem unreadable_artifact_order_witness:
  "load_checkpoint (\<lambda>a i. 0::int) ''checkpoint.pth''
     [''checkpoint.pth'' \<mapsto> Pickled_state_dict [(''output.bias'', Tensor [1] [3])]]
     [Tensor [1] [7]]
   = (Inl ArtifactUnreadable, [Tensor [1] [7]])
   \<and> load_checkpoint (\<lambda>a i. 0::int) ''checkpoint.pth''
       [''checkpoint.pth'' \<mapsto> Pickled_dict
          [(''input_size'', PyInt 2), (''output_size'', PyInt 1),
           (''hidden_layers'', PyIntList [1]), (''state_dict'', PyInt 5)]]
       [Tensor [1] [7]]
     = (Inl ArtifactUnreadable,
        [Tensor [1] [7],
         Tensor [1, 2] [0, 0], Tensor [1] [0], Tensor [1, 1] [0], Tensor [1] [0]])"
proof -
  let ?p = "''checkpoint.pth''"
  let ?b1 = "Pickled_state_dict [(''output.bias'', Tensor [1] [3::int])]"
  let ?b2 = "Pickled_dict
          [(''input_size'', PyInt 2), (''output_size'', PyInt 1),
           (''hidden_layers'', PyIntList [1]), (''state_dict'', PyInt 5 :: int pyval)]"
  let ?h = "[Tensor [1] [7::int]]"
  let ?m = "\<lparr>hidden_layers = [\<lparr>in_features = 2, out_features = 1, weight = 1, bias = 2\<rparr>],
             output_layer = \<lparr>in_features = 1, out_features = 1, weight = 3, bias = 4\<rparr>,
             training = True\<rparr>"
  let ?h1 = "[Tensor [1] [7::int],
             Tensor [1, 2] [0, 0], Tensor [1] [0], Tensor [1, 1] [0], Tensor [1] [0]]"
  have l1: "torch_load ?p [?p \<mapsto> ?b1] = Inr ?b1"
    by (simp add: torch_load_def Pickled_state_dict_def)
  have g1: "getitem ?b1 ''input_size'' = Inl ArtifactUnreadable"
    by (simp add: getitem_def Pickled_state_dict_def)
  from unreadable_artifact_order
    [where filepath = ?p and fs = "[?p \<mapsto> ?b1]" and rng = "\<lambda>a i. 0::int" and h = ?h,
     THEN conjunct1] l1 g1
  have 1: "load_checkpoint (\<lambda>a i. 0::int) ?p [?p \<mapsto> ?b1] ?h = (Inl ArtifactUnreadable, ?h)"
    by blast
  have l2: "torch_load ?p [?p \<mapsto> ?b2] = Inr ?b2" by (simp add: torch_load_def)
  have g2: "getitem ?b2 ''input_size'' = Inr (PyInt 2)"
    "getitem ?b2 ''output_size'' = Inr (PyInt 1)"
    "getitem ?b2 ''hidden_layers'' = Inr (PyIntList [1])"
    "getitem ?b2 ''state_dict'' = Inr (PyInt 5)"
    by (simp_all add: getitem_def)
  have n: "Network_call (\<lambda>a i. 0::int) (PyInt 2) (PyInt 1) (PyIntList [1]) ?h = (Inr ?m, ?h1)"
    by (simp add: Network_call_def Network_def valid_descriptor_def nn_Linear_def
        new_tensor_def numel_def upt_rec Let_def)
  have s: "\<exists>v. getitem ?b2 ''state_dict'' = Inr v \<and> (\<forall>sd. v \<noteq> PyStateDict sd)"
    using g2(4) by simp
  from unreadable_artifact_order
    [where filepath = ?p and fs = "[?p \<mapsto> ?b2]" and rng = "\<lambda>a i. 0::int" and h = ?h
       and ?b0.0 = ?b2 and ?v1.0 = "PyInt 2" and ?v2.0 = "PyInt 1" and ?v3.0 = "PyIntList [1]",
     THEN conjunct2, THEN mp, OF conjI [OF l2 conjI [OF g2(1) conjI [OF g2(2) g2(3)]]],
     THEN conjunct2, rule_format, of ?m ?h1] n s
  have 2: "load_checkpoint (\<lambda>a i. 0::int) ?p [?p \<mapsto> ?b2] ?h = (Inl ArtifactUnreadable, ?h1)"
    by blast
  from 1 2 show ?thesis by simp
qed

section \<open>Strict loading\<close>

text \<open>
  C2. Strict loading walks all the parameters before it raises: whenever the parameters of
  the target model are allocated, its result is either success with an empty report or the
  error \<open>ShapeMismatch\<close> carrying one report \<open>r\<close>, and \<open>r\<close> names every key of the model
  that the recovered dictionary lacks, every key of the recovered dictionary that the model
  lacks, and holds a size mismatch, with both shapes, for every key on both sides whose
  shapes differ. In particular (Scenario B) the parameters of a model built with hidden
  widths 512, 256, 128, loaded into a model built with hidden widths 400, 200, 100, give
  the error with exactly the seven size mismatches the notebook shows: the weight and the
  bias of the three hidden layers and the weight of the output layer.
\<close>

theorem strict_loading_reports_everything:
  "((\<forall>a \<in> snd ` set (state_dict model). a < length h) \<longrightarrow>
     (\<exists>r. fst (load_state_dict model sd h) = (if r = [] then Inr () else Inl (ShapeMismatch r))
        \<and> (\<forall>k. k \<in> fst ` set (state_dict model) \<and> k \<notin> fst ` set sd \<longrightarrow> k \<in> reported_keys r)
        \<and> (\<forall>k. k \<in> fst ` set sd \<and> k \<notin> fst ` set (state_dict model) \<longrightarrow> k \<in> reported_keys r)
        \<and> (\<forall>k a t. (k, a) \<in> set (state_dict model) \<and> map_of sd k = Some t
                    \<and> shape t \<noteq> shape (h ! a)
              \<longrightarrow> Size_mismatch k (shape t) (shape (h ! a)) \<in> set r)))
   \<and> (case Network rngA \<lparr>input_size = 784, output_size = 10, hidden_sizes = [512, 256, 128]\<rparr> hA of
        (Inl e, hA') \<Rightarrow> False
      | (Inr mA, hA') \<Rightarrow>
         (case Network rngB \<lparr>input_size = 784, output_size = 10, hidden_sizes = [400, 200, 100]\<rparr> hB of
            (Inl e, hB') \<Rightarrow> False
          | (Inr mB, hB') \<Rightarrow>
              fst (load_state_dict mB (param_store hA' mA) hB')
              = Inl (ShapeMismatch
                 [Size_mismatch ''hidden_layers.0.weight'' [512, 784] [400, 784],
                  Size_mismatch ''hidden_layers.0.bias'' [512] [400],
                  Size_mismatch ''hidden_layers.1.weight'' [256, 512] [200, 400],
                  Size_mismatch ''hidden_layers.1.bias'' [256] [200],
                  Size_mismatch ''hidden_layers.2.weight'' [128, 256] [100, 200],
                  Size_mismatch ''hidden_layers.2.bias'' [128] [100],
                  Size_mismatch ''output.weight'' [10, 128] [10, 100]])))"
proof (rule conjI)
  show "(\<forall>a \<in> snd ` set (state_dict model). a < length h) \<longrightarrow>
     (\<exists>r. fst (load_state_dict model sd h) = (if r = [] then Inr () else Inl (ShapeMismatch r))
        \<and> (\<forall>k. k \<in> fst ` set (state_dict model) \<and> k \<notin> fst ` set sd \<longrightarrow> k \<in> reported_keys r)
        \<and> (\<forall>k. k \<in> fst ` set sd \<and> k \<notin> fst ` set (state_dict model) \<longrightarrow> k \<in> reported_keys r)
        \<and> (\<forall>k a t. (k, a) \<in> set (state_dict model) \<and> map_of sd k = Some t
                    \<and> shape t \<noteq> shape (h ! a)
              \<longrightarrow> Size_mismatch k (shape t) (shape (h ! a)) \<in> set r))"
    by (rule impI) (rule strict_loading_general)
qed (rule scenario_B)

theorem strict_loading_reports_everything_witness:
  "\<exists>r. fst (load_state_dict
              \<lparr>hidden_layers = [\<lparr>in_features = 1, out_features = 1, weight = 0, bias = 1\<rparr>],
               output_layer = \<lparr>in_features = 1, out_features = 1, weight = 2, bias = 3\<rparr>,
               training = True\<rparr>
              [(''hidden_layers.0.weight'', Tensor [1, 1] [5::int]),
               (''hidden_layers.0.bias'', Tensor [1] [5]),
               (''output.weight'', Tensor [1, 2] [5, 5]),
               (''extra'', Tensor [1] [5])]
              [Tensor [1, 1] [0], Tensor [1] [0], Tensor [1, 1] [0], Tensor [1] [0]])
        = Inl (ShapeMismatch r)
      \<and> ''output.bias'' \<in> reported_keys r
      \<and> ''extra'' \<in> reported_keys r
      \<and> Size_mismatch ''output.weight'' [1, 2] [1, 1] \<in> set r"
proof -
  let ?m = "\<lparr>hidden_layers = [\<lparr>in_features = 1, out_features = 1, weight = 0, bias = 1\<rparr>],
             output_layer = \<lparr>in_features = 1, out_features = 1, weight = 2, bias = 3\<rparr>,
             training = True\<rparr>"
  let ?sd = "[(''hidden_layers.0.weight'', Tensor [1, 1] [5::int]),
             (''hidden_layers.0.bias'', Tensor [1] [5]),
             (''output.weight'', Tensor [1, 2] [5, 5]),
             (''extra'', Tensor [1] [5])]"
  let ?h = "[Tensor [1, 1] [0::int], Tensor [1] [0], Tensor [1, 1] [0], Tensor [1] [0]]"
  have sd: "state_dict ?m = [(''hidden_layers.0.weight'', 0), (''hidden_layers.0.bias'', 1),
                            (''output.weight'', 2), (''output.bias'', 3)]"
    by (simp add: state_dict_def linear_params_def)
  have b: "\<forall>a \<in> snd ` set (state_dict ?m). a < length ?h" unfolding sd by simp
  note inst = strict_loading_reports_everything [where model = ?m and h = ?h and sd = ?sd]
  from conjunct1 [OF inst, THEN mp, OF b]
  obtain r where
    1: "fst (load_state_dict ?m ?sd ?h) = (if r = [] then Inr () else Inl (ShapeMismatch r))"
    and 2: "\<forall>k. k \<in> fst ` set (state_dict ?m) \<and> k \<notin> fst ` set ?sd \<longrightarrow> k \<in> reported_keys r"
    and 3: "\<forall>k. k \<in> fst ` set ?sd \<and> k \<notin> fst ` set (state_dict ?m) \<longrightarrow> k \<in> reported_keys r"
    and 4: "\<forall>k a t. (k, a) \<in> set (state_dict ?m) \<and> map_of ?sd k = Some t
                    \<and> shape t \<noteq> shape (?h ! a)
              \<longrightarrow> Size_mismatch k (shape t) (shape (?h ! a)) \<in> set r"
    by (elim exE conjE)
  from 2 [unfolded sd, rule_format, of "''output.bias''"]
  have k1: "''output.bias'' \<in> reported_keys r" by simp
  from 3 [unfolded sd, rule_format, of "''extra''"]
  have k2: "''extra'' \<in> reported_keys r" by simp
  from 4 [unfolded sd, rule_format, of "''output.weight''" 2 "Tensor [1, 2] [5, 5]"]
  have k3: "Size_mismatch ''output.weight'' [1, 2] [1, 1] \<in> set r" by simp
  then have "r \<noteq> []" by auto
  with 1 have "fst (load_state_dict ?m ?sd ?h) = Inl (ShapeMismatch r)" by simp
  with k1 k2 k3 show ?thesis by (intro exI [of _ r] conjI)
qed

text \<open>
  C3, as stated, fails: strict loading copies every parameter whose key and shape match
  as it meets it, and raises only at the end. The model built from the descriptor
  1, 1, [1] with all parameters 0 is given the parameters, all 7, of a model built from
  the descriptor 1, 1, [2]. Three keys have other shapes and the load fails, but
  \<open>output.bias\<close> has shape \<open>[1]\<close> on both sides and has been overwritten with 7.
\<close>

theorem failed_load_overwrites_counterexample:
  "Network (\<lambda>a i. 0::int) \<lparr>input_size = 1, output_size = 1, hidden_sizes = [1]\<rparr> []
     = (Inr \<lparr>hidden_layers = [\<lparr>in_features = 1, out_features = 1, weight = 0, bias = 1\<rparr>],
             output_layer = \<lparr>in_features = 1, out_features = 1, weight = 2, bias = 3\<rparr>,
             training = True\<rparr>,
        [Tensor [1, 1] [0], Tensor [1] [0], Tensor [1, 1] [0], Tensor [1] [0]])
   \<and> load_state_dict
       \<lparr>hidden_layers = [\<lparr>in_features = 1, out_features = 1, weight = 0, bias = 1\<rparr>],
        output_layer = \<lparr>in_features = 1, out_features = 1, weight = 2, bias = 3\<rparr>,
        training = True\<rparr>
       [(''hidden_layers.0.weight'', Tensor [2, 1] [7, 7::int]),
        (''hidden_layers.0.bias'', Tensor [2] [7, 7]),
        (''output.weight'', Tensor [1, 2] [7, 7]),
        (''output.bias'', Tensor [1] [7])]
       [Tensor [1, 1] [0], Tensor [1] [0], Tensor [1, 1] [0], Tensor [1] [0]]
     = (Inl (ShapeMismatch
          [Size_mismatch ''hidden_layers.0.weight'' [2, 1] [1, 1],
           Size_mismatch ''hidden_layers.0.bias'' [2] [1],
           Size_mismatch ''output.weight'' [1, 2] [1, 1]]),
        [Tensor [1, 1] [0], Tensor [1] [0], Tensor [1, 1] [0], Tensor [1] [7]])
   \<and> param_store [Tensor [1, 1] [0], Tensor [1] [0], Tensor [1, 1] [0], Tensor [1] [7::int]]
        \<lparr>hidden_layers = [\<lparr>in_features = 1, out_features = 1, weight = 0, bias = 1\<rparr>],
         output_layer = \<lparr>in_features = 1, out_features = 1, weight = 2, bias = 3\<rparr>,
         training = True\<rparr>
     \<noteq> param_store [Tensor [1, 1] [0], Tensor [1] [0], Tensor [1, 1] [0], Tensor [1] [0]]
        \<lparr>hidden_layers = [\<lparr>in_features = 1, out_features = 1, weight = 0, bias = 1\<rparr>],
         output_layer = \<lparr>in_features = 1, out_features = 1, weight = 2, bias = 3\<rparr>,
         training = True\<rparr>"
proof -
  have "Network (\<lambda>a i. 0::int) \<lparr>input_size = 1, output_size = 1, hidden_sizes = [1]\<rparr> []
     = (Inr \<lparr>hidden_layers = [\<lparr>in_features = 1, out_features = 1, weight = 0, bias = 1\<rparr>],
             output_layer = \<lparr>in_features = 1, out_features = 1, weight = 2, bias = 3\<rparr>,
             training = True\<rparr>,
        [Tensor [1, 1] [0], Tensor [1] [0], Tensor [1, 1] [0], Tensor [1] [0]])"
    by (simp add: Network_def valid_descriptor_def nn_Linear_def new_tensor_def numel_def
        upt_rec Let_def)
  then show ?thesis
    by (simp add: load_state_dict_def state_dict_def linear_params_def param_store_def Let_def)
qed

text \<open>
  C3, amended: when the parameters of the target model are allocated at distinct
  addresses and a load fails with \<open>ShapeMismatch\<close>, every parameter of the target keeps its
  shape, every parameter whose key is missing from the recovered dictionary or has another
  shape there keeps its value, every parameter whose key is there with the same shape
  holds the recovered value, and nothing else in the heap has changed.
\<close>

theorem failed_load_keeps_reported_parameters:
  assumes "distinct (map snd (state_dict model))"
    and "\<forall>a \<in> snd ` set (state_dict model). a < length h"
    and "load_state_dict model sd h = (Inl (ShapeMismatch r), h')"
  shows "store_shapes (param_store h' model) = store_shapes (param_store h model)
     \<and> (\<forall>(k, a) \<in> set (state_dict model).
          h' ! a = (case map_of sd k of
                      None \<Rightarrow> h ! a
                    | Some t \<Rightarrow> if shape t = shape (h ! a) then t else h ! a))
     \<and> (\<forall>b. b \<notin> snd ` set (state_dict model) \<longrightarrow> h' ! b = h ! b)"
proof -
  obtain h1 errs miss where l: "load_params (state_dict model) sd h = (h1, errs, miss)"
    by (cases "load_params (state_dict model) sd h")
  with assms(3) have h': "h' = h1"
    by (simp add: load_state_dict_def Let_def split: if_splits)
  from load_params_shapes [OF l] have "map shape h' = map shape h" by (simp add: h')
  from heap_shapes_cong [OF this assms(2)]
  have "store_shapes (param_store h' model) = store_shapes (param_store h model)" by simp
  with load_params_values [OF assms(1,2) l] h' show ?thesis by simp
qed

theorem failed_load_keeps_reported_parameters_witness:
  "snd (load_state_dict
     \<lparr>hidden_layers = [\<lparr>in_features = 1, out_features = 1, weight = 0, bias = 1\<rparr>],
      output_layer = \<lparr>in_features = 1, out_features = 1, weight = 2, bias = 3\<rparr>,
      training = True\<rparr>
     [(''hidden_layers.0.weight'', Tensor [2, 1] [7, 7::int]),
      (''hidden_layers.0.bias'', Tensor [2] [7, 7]),
      (''output.bias'', Tensor [1] [7])]
     [Tensor [1, 1] [0], Tensor [1] [0], Tensor [1, 1] [0], Tensor [1] [0]]) ! 2
   = Tensor [1, 1] [0]
   \<and> snd (load_state_dict
     \<lparr>hidden_layers = [\<lparr>in_features = 1, out_features = 1, weight = 0, bias = 1\<rparr>],
      output_layer = \<lparr>in_features = 1, out_features = 1, weight = 2, bias = 3\<rparr>,
      training = True\<rparr>
     [(''hidden_layers.0.weight'', Tensor [2, 1] [7, 7::int]),
      (''hidden_layers.0.bias'', Tensor [2] [7, 7]),
      (''output.bias'', Tensor [1] [7])]
     [Tensor [1, 1] [0], Tensor [1] [0], Tensor [1, 1] [0], Tensor [1] [0]]) ! 0
   = Tensor [1, 1] [0]
   \<and> snd (load_state_dict
     \<lparr>hidden_layers = [\<lparr>in_features = 1, out_features = 1, weight = 0, bias = 1\<rparr>],
      output_layer = \<lparr>in_features = 1, out_features = 1, weight = 2, bias = 3\<rparr>,
      training = True\<rparr>
     [(''hidden_layers.0.weight'', Tensor [2, 1] [7, 7::int]),
      (''hidden_layers.0.bias'', Tensor [2] [7, 7]),
      (''output.bias'', Tensor [1] [7])]
     [Tensor [1, 1] [0], Tensor [1] [0], Tensor [1, 1] [0], Tensor [1] [0]]) ! 3
   = Tensor [1] [7]"
proof -
  let ?m = "\<lparr>hidden_layers = [\<lparr>in_features = 1, out_features = 1, weight = 0, bias = 1\<rparr>],
             output_layer = \<lparr>in_features = 1, out_features = 1, weight = 2, bias = 3\<rparr>,
             training = True\<rparr>"
  let ?sd = "[(''hidden_layers.0.weight'', Tensor [2, 1] [7, 7::int]),
             (''hidden_layers.0.bias'', Tensor [2] [7, 7]),
             (''output.bias'', Tensor [1] [7])]"
  let ?h = "[Tensor [1, 1] [0::int], Tensor [1] [0], Tensor [1, 1] [0], Tensor [1] [0]]"
  let ?r = "[Missing_keys [''output.weight''],
            Size_mismatch ''hidden_layers.0.weight'' [2, 1] [1, 1],
            Size_mismatch ''hidden_layers.0.bias'' [2] [1]]"
  have sd: "state_dict ?m = [(''hidden_layers.0.weight'', 0), (''hidden_layers.0.bias'', 1),
                            (''output.weight'', 2), (''output.bias'', 3)]"
    by (simp add: state_dict_def linear_params_def)
  have 1: "distinct (map snd (state_dict ?m))" unfolding sd by simp
  have 2: "\<forall>a \<in> snd ` set (state_dict ?m). a < length ?h" unfolding sd by simp
  have 3: "load_state_dict ?m ?sd ?h
             = (Inl (ShapeMismatch ?r), snd (load_state_dict ?m ?sd ?h))"
    unfolding load_state_dict_def sd by (simp add: Let_def)
  from failed_load_keeps_reported_parameters [OF 1 2 3, unfolded sd]
  show ?thesis by simp
qed

section \<open>The persisted record and the live parameters\<close>

text \<open>
  C5. The save cell writes to the file the values the parameters have at that moment.
  Whatever is written to live parameters afterwards (\<open>ws\<close> is any sequence of in-place
  writes), the file still holds the architecture fields and the Parameter Store of the
  moment of the save. The dictionary \<open>checkpoint\<close> in memory is another matter: its state
  dict refers to the live parameters and reads their current values.
\<close>

theorem checkpoint_snapshot_independent:
  "snd (fold (\<lambda>(a, t). write_param a t) ws (save_cell model path (h, fs))) path
     = Some (Pickled_checkpoint
         \<lparr>ck_input_size = 784, ck_output_size = 10,
          ck_hidden_layers = map out_features (hidden_layers model),
          ck_state_dict = param_store h model\<rparr>)
   \<and> pickle_state_dict (fst (fold (\<lambda>(a, t). write_param a t) ws (save_cell model path (h, fs))))
        (ck_state_dict (checkpoint model))
     = param_store (fst (fold (\<lambda>(a, t). write_param a t) ws (save_cell model path (h, fs)))) model"
proof -
  have "snd (fold (\<lambda>(a, t). write_param a t) ws s) = snd s" for s :: "'a heap \<times> 'a files"
    by (induction ws arbitrary: s) (auto simp: write_param_def)
  then show ?thesis
    by (simp add: save_cell_def torch_save_checkpoint_def checkpoint_def pickle_param_store)
qed

text \<open>
  C8. The training/evaluation flag is not part of what is saved: the dictionary built by
  the save cell, the Parameter Store and the file written are the same whether the model
  is in evaluation or in training mode, and the file holds the architecture fields and the
  parameter values only. Scenario A holds with the flag set either way: a model built
  from the descriptor 784, 10, [512, 256, 128] and saved in either mode loads into a model
  with an equal Parameter Store. The loaded model is in training mode in both cases, the
  mode of every new module.
\<close>

theorem mode_flag_not_in_checkpoint:
  "checkpoint (eval model) = checkpoint model
   \<and> checkpoint (train model) = checkpoint model
   \<and> param_store h (eval model) = param_store h model
   \<and> param_store h (train model) = param_store h model
   \<and> torch_save_checkpoint (checkpoint (eval model)) path h fs path
       = Some (Pickled_checkpoint
           \<lparr>ck_input_size = 784, ck_output_size = 10,
            ck_hidden_layers = map out_features (hidden_layers model),
            ck_state_dict = param_store h model\<rparr>)
   \<and> torch_save_checkpoint (checkpoint (train model)) path h fs path
       = Some (Pickled_checkpoint
           \<lparr>ck_input_size = 784, ck_output_size = 10,
            ck_hidden_layers = map out_features (hidden_layers model),
            ck_state_dict = param_store h model\<rparr>)
   \<and> (case Network rng \<lparr>input_size = 784, output_size = 10, hidden_sizes = [512, 256, 128]\<rparr> h0 of
        (Inl e, h1) \<Rightarrow> False
      | (Inr m, h1) \<Rightarrow>
          (\<exists>m' h''. load_checkpoint rng' path
                       (torch_save_checkpoint (checkpoint (eval m)) path h1 fs) h' = (Inr m', h'')
                     \<and> param_store h'' m' = param_store h1 (eval m) \<and> training m')
          \<and> (\<exists>m' h''. load_checkpoint rng' path
                       (torch_save_checkpoint (checkpoint (train m)) path h1 fs) h' = (Inr m', h'')
                     \<and> param_store h'' m' = param_store h1 (train m) \<and> training m'))"
proof -
  let ?d = "\<lparr>input_size = 784, output_size = 10, hidden_sizes = [512, 256, 128]\<rparr>"
  have blob: "torch_save_checkpoint (checkpoint model) path h fs path
       = Some (Pickled_checkpoint
           \<lparr>ck_input_size = 784, ck_output_size = 10,
            ck_hidden_layers = map out_features (hidden_layers model),
            ck_state_dict = param_store h model\<rparr>)"
    by (simp add: torch_save_checkpoint_def checkpoint_def pickle_param_store)
  have v: "valid_descriptor ?d" by (simp add: valid_descriptor_def)
  from Network_props [OF v, of rng h0] obtain m h1 where
    N: "Network rng ?d h0 = (Inr m, h1)" by blast
  have "\<exists>m' h''. load_checkpoint rng' path
                       (torch_save_checkpoint (checkpoint m) path h1 fs) h' = (Inr m', h'')
                     \<and> param_store h'' m' = param_store h1 m \<and> training m'"
    by (rule load_saved_checkpoint [OF N]) simp_all
  with N blob show ?thesis by simp
qed

section \<open>Dropout in evaluation mode\<close>

text \<open>
  C10. \<open>DropoutClassifier.forward\<close> calls \<open>F.dropout\<close> with its default \<open>training=True\<close>
  and never reads the flag of the module: for every model, random choice and input the
  output after \<open>model.eval()\<close> is the output before it and the output after
  \<open>model.train()\<close>. And after \<open>model.eval()\<close> the output is still not a function of the
  parameters and the input: there is a classifier of the shapes of \<open>DropoutClassifier\<close>
  and an input of 784 values on which two random choices give different outputs.
\<close>

theorem eval_keeps_dropout:
  "forward (classifier_eval model) keep x = forward model keep x
   \<and> forward (classifier_eval model) keep x = forward (classifier_train model) keep x
   \<and> (\<exists>m x' mask mask'. is_DropoutClassifier m \<and> length x' = 784
         \<and> forward (classifier_eval m) mask x' \<noteq> forward (classifier_eval m) mask' x')"
proof -
  have 1: "forward (classifier_eval model) keep x = forward model keep x"
    by (simp add: forward_def classifier_eval_def)
  have 2: "forward (classifier_train model) keep x = forward model keep x"
    by (simp add: forward_def classifier_train_def)
  have "is_DropoutClassifier (classifier_eval sample_classifier)
      \<and> length (replicate 784 (0::real)) = 784
      \<and> forward (classifier_eval (classifier_eval sample_classifier)) (\<lambda>j i. True) (replicate 784 0)
          \<noteq> forward (classifier_eval (classifier_eval sample_classifier)) (\<lambda>j i. False) (replicate 784 0)"
    using sample_is_DropoutClassifier forward_depends_on_mask [of "replicate 784 0"]
    by (simp add: classifier_eval_def)
  then have 3: "\<exists>m x' mask mask'. is_DropoutClassifier m \<and> length x' = 784
         \<and> forward (classifier_eval m) mask x' \<noteq> forward (classifier_eval m) mask' x'"
    by blast
  from 1 2 3 show ?thesis by simp
qed

end
